theory Spec2Isabelle
  imports Complex_Main
begin

section \<open>Habitability composites (data\_science/algorithms)\<close>

text \<open>
  Python floats are modelled as real numbers: every comparison, sum, product and
  quotient of the source is the exact one. NaN and the infinities have no counterpart
  here; where the source produces the infinity on purpose it is modelled as an absent
  value.
\<close>

subsection \<open>cdhs.py\<close>

text \<open>The dataclass \<open>HabitabilityCriteria\<close> with its defaults.\<close>

record HabitabilityCriteria =
  temp_min :: real
  temp_max :: real
  temp_optimal :: real
  radius_min :: real
  radius_max :: real
  radius_optimal :: real
  flux_min :: real
  flux_max :: real
  flux_optimal :: real
  temp_weight :: real
  radius_weight :: real
  flux_weight :: real
  stability_weight :: real

definition default_criteria :: HabitabilityCriteria where
  "default_criteria =
     \<lparr> temp_min = 273, temp_max = 373, temp_optimal = 288,
       radius_min = 1/2, radius_max = 3/2, radius_optimal = 1,
       flux_min = 1/2, flux_max = 2, flux_optimal = 1,
       temp_weight = 35/100, radius_weight = 25/100,
       flux_weight = 20/100, stability_weight = 20/100 \<rparr>"

text \<open>\<open>CDHSAlgorithm.calculate_temperature_score\<close>; \<open>c\<close> is \<open>self.criteria\<close>.\<close>

definition calculate_temperature_score :: "HabitabilityCriteria \<Rightarrow> real \<Rightarrow> real" where
  "calculate_temperature_score c temp =
     (if temp < temp_min c \<or> temp > temp_max c then 0
      else
        let distance = \<bar>temp - temp_optimal c\<bar>;
            max_distance = max (temp_optimal c - temp_min c) (temp_max c - temp_optimal c);
            score = 1 - distance / max_distance
        in max 0 score)"

definition calculate_radius_score :: "HabitabilityCriteria \<Rightarrow> real \<Rightarrow> real" where
  "calculate_radius_score c radius =
     (if radius < radius_min c \<or> radius > radius_max c then 0
      else
        let distance = \<bar>radius - radius_optimal c\<bar>;
            max_distance = max (radius_optimal c - radius_min c) (radius_max c - radius_optimal c);
            score = 1 - distance / max_distance
        in max 0 score)"

definition calculate_flux_score :: "HabitabilityCriteria \<Rightarrow> real \<Rightarrow> real" where
  "calculate_flux_score c flux =
     (if flux < flux_min c \<or> flux > flux_max c then 0
      else
        let distance = \<bar>flux - flux_optimal c\<bar>;
            max_distance = max (flux_optimal c - flux_min c) (flux_max c - flux_optimal c);
            score = 1 - distance / max_distance
        in max 0 score)"

definition calculate_stability_score :: "real \<Rightarrow> real \<Rightarrow> real" where
  "calculate_stability_score eccentricity orbital_period =
     (let ecc_score = max 0 (1 - eccentricity);
          period_score =
            (if orbital_period > 0 then
               (if 100 \<le> orbital_period \<and> orbital_period \<le> 1000 then 1
                else max 0 (1 - \<bar>orbital_period - 365\<bar> / 1000))
             else 1)
      in ecc_score * (6/10) + period_score * (4/10))"

text \<open>
  \<open>CDHSAlgorithm.calculate_cdhs\<close>. The source gives \<open>eccentricity\<close> and
  \<open>orbital_period\<close> defaults (0.0 and 365.0); \<open>stellar_flux\<close> has none and must be
  passed.
\<close>

definition calculate_cdhs ::
  "HabitabilityCriteria \<Rightarrow> real \<Rightarrow> real \<Rightarrow> real \<Rightarrow> real \<Rightarrow> real \<Rightarrow> real" where
  "calculate_cdhs c temperature radius stellar_flux eccentricity orbital_period =
     (let temp_score = calculate_temperature_score c temperature;
          radius_score = calculate_radius_score c radius;
          flux_score = calculate_flux_score c stellar_flux;
          stability_score = calculate_stability_score eccentricity orbital_period;
          cdhs = temp_score * temp_weight c + radius_score * radius_weight c
                 + flux_score * flux_weight c + stability_score * stability_weight c
      in min 1 (max 0 cdhs))"

subsection \<open>sephi.py\<close>

text \<open>
  Exceptions of the Python runtime that the modelled code can raise. In
  \<open>calculate_size_score\<close> the quotient \<open>mass / radius ** 3\<close> raises
  \<open>ZeroDivisionError\<close> when a mass is given and the radius is 0.
\<close>

datatype py_error = ZeroDivisionError | TypeError | ValueError | OverflowError

text \<open>The constants and weights set in \<open>SEPHICalculator.__init__\<close>.\<close>

definition EARTH_RADIUS :: real where "EARTH_RADIUS = 1"
definition EARTH_TEMP :: real where "EARTH_TEMP = 288"
definition SOL_TEMP :: real where "SOL_TEMP = 5778"
definition EARTH_ORBIT :: real where "EARTH_ORBIT = 365"

datatype component = Temperature | Size | Stellar | Orbital

fun weights :: "component \<Rightarrow> real" where
  "weights Temperature = 35/100"
| "weights Size = 25/100"
| "weights Stellar = 20/100"
| "weights Orbital = 20/100"

definition sephi_temperature_score :: "real \<Rightarrow> real" where
  "sephi_temperature_score equilibrium_temp =
     (let temp_score =
            (if 250 \<le> equilibrium_temp \<and> equilibrium_temp \<le> 350
               then 1 - \<bar>equilibrium_temp - EARTH_TEMP\<bar> / 100
             else if 150 \<le> equilibrium_temp \<and> equilibrium_temp \<le> 450
               then 1/2 - \<bar>equilibrium_temp - EARTH_TEMP\<bar> / 200
             else 0)
      in max 0 (min 1 temp_score))"

definition calculate_size_score :: "real \<Rightarrow> real option \<Rightarrow> py_error + real" where
  "calculate_size_score radius mass =
     (let size_score =
            (if 8/10 \<le> radius \<and> radius \<le> 14/10
               then 1 - \<bar>radius - EARTH_RADIUS\<bar> / (6/10)
             else if 1/2 \<le> radius \<and> radius \<le> 25/10
               then 1/2 - \<bar>radius - EARTH_RADIUS\<bar> / 2
             else 0)
      in case mass of
           None \<Rightarrow> Inr (max 0 (min 1 size_score))
         | Some m \<Rightarrow>
             if radius ^ 3 = 0 then Inl ZeroDivisionError
             else
               let density_ratio = m / radius ^ 3;
                   size_score' =
                     (if 7/10 \<le> density_ratio \<and> density_ratio \<le> 15/10
                        then size_score * 1 else size_score * (1/2))
               in Inr (max 0 (min 1 size_score')))"

definition calculate_stellar_score :: "real \<Rightarrow> real option \<Rightarrow> real" where
  "calculate_stellar_score stellar_temp stellar_age =
     (let stellar_score =
            (if 4500 \<le> stellar_temp \<and> stellar_temp \<le> 6500
               then 1 - \<bar>stellar_temp - SOL_TEMP\<bar> / 2000
             else if 2400 \<le> stellar_temp \<and> stellar_temp \<le> 7500
               then 1/2 - \<bar>stellar_temp - SOL_TEMP\<bar> / 4000
             else 0);
          stellar_score' =
            (case stellar_age of
               None \<Rightarrow> stellar_score
             | Some age \<Rightarrow>
                 if 1 \<le> age \<and> age \<le> 10 then stellar_score * 1
                 else if 1/2 \<le> age \<and> age \<le> 12 then stellar_score * (7/10)
                 else stellar_score * (3/10))
      in max 0 (min 1 stellar_score'))"

definition calculate_orbital_score :: "real \<Rightarrow> real" where
  "calculate_orbital_score orbital_period =
     (let orbital_score =
            (if 200 \<le> orbital_period \<and> orbital_period \<le> 500
               then 1 - \<bar>orbital_period - EARTH_ORBIT\<bar> / 300
             else if 50 \<le> orbital_period \<and> orbital_period \<le> 700
               then 1/2 - \<bar>orbital_period - EARTH_ORBIT\<bar> / 600
             else 0)
      in max 0 (min 1 orbital_score))"

text \<open>
  The dictionary returned by \<open>calculate_sephi_score\<close>: the overall score and the four
  component scores, in the order the source inserts them.
\<close>

record sephi_result =
  sephi_score :: real
  component_scores :: "(component \<times> real) list"

definition calculate_sephi_score ::
  "real \<Rightarrow> real \<Rightarrow> real \<Rightarrow> real \<Rightarrow> real option \<Rightarrow> real option \<Rightarrow> py_error + sephi_result" where
  "calculate_sephi_score equilibrium_temp radius stellar_temp orbital_period mass stellar_age =
     (case calculate_size_score radius mass of
        Inl e \<Rightarrow> Inl e
      | Inr size_score \<Rightarrow>
          let scores =
                [(Temperature, sephi_temperature_score equilibrium_temp),
                 (Size, size_score),
                 (Stellar, calculate_stellar_score stellar_temp stellar_age),
                 (Orbital, calculate_orbital_score orbital_period)];
              overall_score = sum_list (map (\<lambda>(component, score). score * weights component) scores)
          in Inr \<lparr> sephi_score = overall_score, component_scores = scores \<rparr>)"

section \<open>Observability geometry (backend/app/utils/observability.py)\<close>

definition AU_METERS :: real where "AU_METERS = 1496 * 10 ^ 8"
definition PARSEC_METERS :: real where "PARSEC_METERS = 3086 * 10 ^ 13"
definition RAD_TO_MAS :: real where "RAD_TO_MAS = 206265000"

fun WAVELENGTHS_MICRON :: "string \<Rightarrow> real option" where
  "WAVELENGTHS_MICRON band =
     (if band = ''UV'' then Some (25/100)
      else if band = ''Visible'' then Some (55/100)
      else if band = ''NIR'' then Some (16/10)
      else None)"

record ObservabilityParams =
  telescope_diameter_m :: real
  wavelength_band :: string
  inner_working_angle_mas :: real
  contrast_sensitivity :: real

text \<open>The defaults of \<open>ObservabilityParams.__init__\<close>.\<close>

definition default_params :: ObservabilityParams where
  "default_params =
     \<lparr> telescope_diameter_m = 6, wavelength_band = ''Visible'',
       inner_working_angle_mas = 75, contrast_sensitivity = 1 / 10 ^ 10 \<rparr>"

definition angular_separation_mas :: "real \<Rightarrow> real \<Rightarrow> real" where
  "angular_separation_mas semi_major_axis_au distance_pc =
     (if distance_pc \<le> 0 \<or> semi_major_axis_au \<le> 0 then 0
      else
        let theta_rad = (semi_major_axis_au * AU_METERS) / (distance_pc * PARSEC_METERS)
        in theta_rad * RAD_TO_MAS)"

text \<open>
  Two range errors of the float arithmetic are exceptions in Python and are kept in
  the model. A power \<open>x ** 2\<close> raises \<open>OverflowError\<close> when its value rounds to
  infinity, that is from \<open>2^1024 - 2^970\<close> on (half a unit in the last place above the
  largest double). A quotient rounds to \<open>0.0\<close> when its value is at most \<open>2^-1075\<close>
  (half the smallest positive double), and \<open>math.log10(0.0)\<close> raises \<open>ValueError\<close>.
  Sums, products and quotients that overflow give an infinity without raising and are
  not modelled.
\<close>

definition FLOAT_OVERFLOW :: real where "FLOAT_OVERFLOW = 2 ^ 1024 - 2 ^ 970"
definition FLOAT_UNDERFLOW :: real where "FLOAT_UNDERFLOW = 1 / 2 ^ 1075"

text \<open>\<open>albedo\<close> defaults to 0.3 in the source; \<open>compute_observability\<close> never passes it.\<close>

definition planet_star_contrast_ratio :: "real \<Rightarrow> real \<Rightarrow> py_error + real" where
  "planet_star_contrast_ratio planet_radius_re albedo =
     (if planet_radius_re \<le> 0 then Inr 0
      else
        let rs_re = 109;
            squared = (planet_radius_re / rs_re) ^ 2
        in if squared \<ge> FLOAT_OVERFLOW then Inl OverflowError
           else Inr (max (1 / 10 ^ 12) (albedo * squared)))"

text \<open>
  \<open>required_telescope_diameter_m\<close> returns \<open>float("inf")\<close> for a non-positive
  separation; that value is \<open>None\<close> here. \<open>iwa_factor\<close> defaults to 2.0 and is
  never passed by the caller.
\<close>

definition required_telescope_diameter_m :: "real \<Rightarrow> string \<Rightarrow> real \<Rightarrow> real option" where
  "required_telescope_diameter_m separation_mas band iwa_factor =
     (if separation_mas \<le> 0 then None
      else
        let wavelength_um = (case WAVELENGTHS_MICRON band of None \<Rightarrow> 55/100 | Some w \<Rightarrow> w);
            theta_rad = separation_mas / RAD_TO_MAS;
            d_m = (122/100) * (wavelength_um * (1 / 10 ^ 6)) / theta_rad
        in Some (d_m * iwa_factor))"

definition spectroscopic_feasibility :: "real \<Rightarrow> real \<Rightarrow> py_error + real" where
  "spectroscopic_feasibility contrast contrast_limit =
     (if contrast_limit \<le> 0 then Inr 0
      else
        let ratio = contrast_limit / max contrast (1 / 10 ^ 20)
        in if ratio \<le> FLOAT_UNDERFLOW then Inl ValueError
           else
             let score = (log 10 ratio + 1) / 2
             in Inr (max 0 (min 1 score)))"

definition iwa_check_score :: "real \<Rightarrow> real \<Rightarrow> real" where
  "iwa_check_score separation_mas iwa_mas =
     (if iwa_mas \<le> 0 then 0
      else if separation_mas \<le> 0 then 0
      else
        let ratio = separation_mas / iwa_mas
        in max 0 (min 1 (ratio - 1/2)))"

text \<open>
  A planet is a Python dictionary from column names to untyped values: a number, a
  string (the rows of \<open>csv.DictReader\<close>) or \<open>None\<close>.
\<close>

datatype pyval = PNone | PNum real | PStr string

type_synonym planet = "string \<rightharpoonup> pyval"

text \<open>Truth value of a Python object, as \<open>or\<close> tests it.\<close>

fun truthy :: "pyval \<Rightarrow> bool" where
  "truthy PNone = False"
| "truthy (PNum x) = (x \<noteq> 0)"
| "truthy (PStr s) = (s \<noteq> [])"

text \<open>
  \<open>float(v)\<close>. Parsing a string is Python's own and is a parameter: \<open>fos s\<close> is
  the number that \<open>float(s)\<close> returns, \<open>None\<close> where it raises \<open>ValueError\<close>.
\<close>

fun py_float :: "(string \<Rightarrow> real option) \<Rightarrow> pyval \<Rightarrow> py_error + real" where
  "py_float fos PNone = Inl TypeError"
| "py_float fos (PNum x) = Inr x"
| "py_float fos (PStr s) = (case fos s of None \<Rightarrow> Inl ValueError | Some x \<Rightarrow> Inr x)"

text \<open>
  \<open>float(v ** (2/3))\<close>: a string or \<open>None\<close> raises \<open>TypeError\<close> at the power; a
  negative number yields a complex power, which \<open>float\<close> rejects with \<open>TypeError\<close>.
\<close>

fun float_pow_two_thirds :: "pyval \<Rightarrow> py_error + real" where
  "float_pow_two_thirds (PNum x) = (if x < 0 then Inl TypeError else Inr (x powr (2/3)))"
| "float_pow_two_thirds PNone = Inl TypeError"
| "float_pow_two_thirds (PStr s) = Inl TypeError"

text \<open>\<open>d.get(k, default)\<close> with a numeric default.\<close>

definition get_default :: "planet \<Rightarrow> string \<Rightarrow> real \<Rightarrow> pyval" where
  "get_default d k dflt = (case d k of None \<Rightarrow> PNum dflt | Some v \<Rightarrow> v)"

record observability =
  separation_mas :: real
  contrast_ratio :: real
  required_diameter_m :: "real option"
  spectroscopic_score :: real
  iwa_score :: real
  observability_score :: real

text \<open>
  The third summand of \<open>combined\<close>. With an infinite required diameter the source
  computes \<open>inf / inf\<close>, a NaN, and \<open>max(0.0, NaN)\<close> is \<open>0.0\<close> in Python (the first
  argument is kept unless the second compares greater), so the summand is
  \<open>0.2 * max(0.0, 1.0 - 0.0)\<close>.
\<close>

definition diameter_term :: "real option \<Rightarrow> real \<Rightarrow> real" where
  "diameter_term req_d telescope_d =
     (case req_d of
        None \<Rightarrow> max 0 (1 - 0)
      | Some d \<Rightarrow> max 0 (1 - max 0 ((d - telescope_d) / max d (1 / 10 ^ 6))))"

definition compute_observability ::
  "(string \<Rightarrow> real option) \<Rightarrow> planet \<Rightarrow> ObservabilityParams \<Rightarrow> py_error + observability" where
  "compute_observability fos planet params =
     (case (let v = (case planet ''pl_orbsmax'' of None \<Rightarrow> PNone | Some v \<Rightarrow> v)
            in if truthy v then py_float fos v
               else float_pow_two_thirds (get_default planet ''pl_orbper'' 365)) of
        Inl e \<Rightarrow> Inl e
      | Inr a_au \<Rightarrow>
     (case py_float fos (get_default planet ''sy_dist'' 10) of
        Inl e \<Rightarrow> Inl e
      | Inr dist_pc \<Rightarrow>
     (case py_float fos (get_default planet ''pl_rade'' 1) of
        Inl e \<Rightarrow> Inl e
      | Inr radius_re \<Rightarrow>
          let sep_mas = angular_separation_mas a_au dist_pc
          in (case planet_star_contrast_ratio radius_re (3/10) of
                Inl e \<Rightarrow> Inl e
              | Inr contrast \<Rightarrow>
          let req_d = required_telescope_diameter_m sep_mas (wavelength_band params) 2
          in (case spectroscopic_feasibility contrast (contrast_sensitivity params) of
                Inl e \<Rightarrow> Inl e
              | Inr spec_score \<Rightarrow>
          let iwa_sc = iwa_check_score sep_mas (inner_working_angle_mas params);
              combined = (4/10) * iwa_sc + (4/10) * spec_score
                         + (2/10) * diameter_term req_d (telescope_diameter_m params)
          in Inr \<lparr> separation_mas = sep_mas, contrast_ratio = contrast,
                   required_diameter_m = req_d, spectroscopic_score = spec_score,
                   iwa_score = iwa_sc, observability_score = max 0 (min 1 combined) \<rparr>)))))"

text \<open>
  A row of the CSV scoring endpoint as \<open>csv.DictReader\<close> delivers it: every value is a
  string, and the file has no \<open>pl_orbsmax\<close> column.
\<close>

definition csv_row :: planet where
  "csv_row =
     [''pl_name'' \<mapsto> PStr ''Kepler-442b'', ''pl_rade'' \<mapsto> PStr ''1.34'',
      ''pl_orbper'' \<mapsto> PStr ''112.3'', ''sy_dist'' \<mapsto> PStr ''1206'']"

section \<open>Strings\<close>

text \<open>
  Python strings are modelled as lists of 8-bit characters, the code points 0 to 255.
  \<open>lower\<close> moves the capital letters 65 to 90 and 192 to 222 (but not the
  multiplication sign 215) up by 32. \<open>upper\<close> moves the small letters 97 to 122 and 224
  to 254 (but not the division sign 247) down by 32; for the three code points 181, 223
  and 255 Python's upper-case form is no 8-bit character and they are left as they
  are: the one caller, a lookup among ASCII capitals, misses in both cases.
\<close>

definition lower_char :: "char \<Rightarrow> char" where
  "lower_char c =
     (let n = (of_char c :: nat)
      in if (65 \<le> n \<and> n \<le> 90) \<or> (192 \<le> n \<and> n \<le> 222 \<and> n \<noteq> 215) then char_of (n + 32)
         else c)"

definition upper_char :: "char \<Rightarrow> char" where
  "upper_char c =
     (let n = (of_char c :: nat)
      in if (97 \<le> n \<and> n \<le> 122) \<or> (224 \<le> n \<and> n \<le> 254 \<and> n \<noteq> 247) then char_of (n - 32)
         else c)"

definition lower :: "string \<Rightarrow> string" where
  "lower s = map lower_char s"

text \<open>\<open>starts_with p s\<close>: \<open>s.startswith(p)\<close>.\<close>

fun starts_with :: "string \<Rightarrow> string \<Rightarrow> bool" where
  "starts_with [] s = True"
| "starts_with (p # ps) [] = False"
| "starts_with (p # ps) (c # cs) = (p = c \<and> starts_with ps cs)"

text \<open>\<open>py_in p s\<close>: the Python test \<open>p in s\<close> on strings (\<open>p\<close> occurs in \<open>s\<close>).\<close>

fun py_in :: "string \<Rightarrow> string \<Rightarrow> bool" where
  "py_in p [] = (p = [])"
| "py_in p (c # cs) = (starts_with p (c # cs) \<or> py_in p cs)"

text \<open>Decimal digits of a natural number, for \<open>f'Target-{index+1}'\<close>.\<close>

fun str_of_nat :: "nat \<Rightarrow> string" where
  "str_of_nat n =
     (if n < 10 then [char_of (48 + n)]
      else str_of_nat (n div 10) @ [char_of (48 + n mod 10)])"

declare str_of_nat.simps [simp del]

text \<open>\<open>if not s\<close> on an optional string: true for \<open>None\<close> and for the empty string.\<close>

fun falsy_str :: "string option \<Rightarrow> bool" where
  "falsy_str None = True"
| "falsy_str (Some s) = (s = [])"


text \<open>
  \<open>strip()\<close>: leading and trailing whitespace removed. Among the code points 0 to 255
  Python's whitespace characters are 9 to 13, 28 to 32, 133 and 160.
\<close>

definition is_space :: "char \<Rightarrow> bool" where
  "is_space c =
     (let n = (of_char c :: nat)
      in (9 \<le> n \<and> n \<le> 13) \<or> (28 \<le> n \<and> n \<le> 32) \<or> n = 133 \<or> n = 160)"

definition strip :: "string \<Rightarrow> string" where
  "strip s = rev (dropWhile is_space (rev (dropWhile is_space s)))"

text \<open>\<open>replace_char a b s\<close>: \<open>s.replace(a, b)\<close> for one-character strings.\<close>

definition replace_char :: "char \<Rightarrow> char \<Rightarrow> string \<Rightarrow> string" where
  "replace_char a b s = map (\<lambda>c. if c = a then b else c) s"

text \<open>
  \<open>remove_all p s\<close>: \<open>s.replace(p, '')\<close>, every non-overlapping occurrence of \<open>p\<close>
  deleted from left to right; an empty \<open>p\<close> leaves \<open>s\<close> as it is.
\<close>

fun remove_all :: "string \<Rightarrow> string \<Rightarrow> string" where
  "remove_all p [] = []"
| "remove_all p (c # cs) =
     (if p \<noteq> [] \<and> starts_with p (c # cs) then remove_all p (drop (length p - 1) cs)
      else c # remove_all p cs)"

section \<open>Column detector (backend/app/api/hwo\_scoring.py)\<close>

text \<open>
  \<open>ColumnDetector.COLUMN_MAPPINGS\<close>, in the order of the dictionary literal (Python
  iterates a dictionary in insertion order).
\<close>

definition name_synonyms :: "string list" where
  "name_synonyms =
     [''name'', ''planet_name'', ''pl_name'', ''target_name'', ''object_name'',
      ''identifier'', ''designation'', ''common_name'', ''planet'', ''target'', ''object'',
      ''source_name'', ''catalogue_name'', ''exoplanet_name'']"

definition distance_synonyms :: "string list" where
  "distance_synonyms =
     [''distance'', ''dist'', ''sy_dist'', ''distance_pc'', ''dist_pc'',
      ''parallax_distance'', ''stellar_distance'', ''star_distance'', ''system_distance'',
      ''parsecs'', ''pc'', ''d'', ''dist_parsec'']"

definition star_type_synonyms :: "string list" where
  "star_type_synonyms =
     [''star_type'', ''stellar_type'', ''st_spectype'', ''spectral_type'', ''spec_type'',
      ''stellar_class'', ''star_class'', ''classification'', ''sptype'', ''spectype'',
      ''st_type'', ''host_star_type'', ''host_type'']"

definition planet_radius_synonyms :: "string list" where
  "planet_radius_synonyms =
     [''planet_radius'', ''pl_rade'', ''radius'', ''pl_radius'', ''r_planet'',
      ''planet_r'', ''radius_earth'', ''earth_radius'', ''r_earth'', ''re'',
      ''planet_size'', ''size'', ''pl_rad'', ''radius_e'']"

definition orbital_period_synonyms :: "string list" where
  "orbital_period_synonyms =
     [''orbital_period'', ''period'', ''pl_orbper'', ''orbit_period'', ''period_days'',
      ''orbital_period_days'', ''pl_period'', ''p'', ''orbit_p'', ''period_d'', ''days'',
      ''pl_orbperdur1'']"

definition stellar_mass_synonyms :: "string list" where
  "stellar_mass_synonyms =
     [''stellar_mass'', ''star_mass'', ''st_mass'', ''host_mass'', ''host_star_mass'',
      ''m_star'', ''mass_star'', ''stellar_m'', ''st_m'', ''ms'', ''mass_stellar'',
      ''host_m'']"

definition planet_mass_synonyms :: "string list" where
  "planet_mass_synonyms =
     [''planet_mass'', ''pl_masse'', ''mass'', ''pl_mass'', ''m_planet'', ''planet_m'',
      ''mass_earth'', ''earth_mass'', ''m_earth'', ''me'', ''pl_m'', ''mass_e'',
      ''planet_masse'']"

definition temperature_synonyms :: "string list" where
  "temperature_synonyms =
     [''temperature'', ''temp'', ''pl_eqt'', ''equilibrium_temperature'', ''eq_temp'',
      ''teq'', ''t_eq'', ''planet_temp'', ''pl_temp'', ''effective_temperature'',
      ''t_eff'', ''temp_eq'', ''kelvin'']"

definition discovery_year_synonyms :: "string list" where
  "discovery_year_synonyms =
     [''discovery_year'', ''disc_year'', ''year'', ''discovery_date'', ''found_year'',
      ''detected_year'', ''publication_year'', ''announce_year'', ''year_discovered'',
      ''yr'']"

definition detection_method_synonyms :: "string list" where
  "detection_method_synonyms =
     [''detection_method'', ''discovery_method'', ''method'', ''discoverymethod'',
      ''detection_technique'', ''discovery_technique'', ''technique'',
      ''method_detection'', ''detect_method'', ''disc_method'']"

definition data_quality_synonyms :: "string list" where
  "data_quality_synonyms =
     [''data_quality'', ''quality'', ''data_flag'', ''flag'', ''reliability'',
      ''confidence'', ''quality_flag'', ''grade'', ''rating'', ''status'',
      ''validation_status'', ''verified'']"

definition COLUMN_MAPPINGS :: "(string \<times> string list) list" where
  "COLUMN_MAPPINGS =
     [(''name'', name_synonyms),
      (''distance'', distance_synonyms),
      (''star_type'', star_type_synonyms),
      (''planet_radius'', planet_radius_synonyms),
      (''orbital_period'', orbital_period_synonyms),
      (''stellar_mass'', stellar_mass_synonyms),
      (''planet_mass'', planet_mass_synonyms),
      (''temperature'', temperature_synonyms),
      (''discovery_year'', discovery_year_synonyms),
      (''detection_method'', detection_method_synonyms),
      (''data_quality'', data_quality_synonyms)]"

text \<open>\<open>_fuzzy_match\<close>: the pattern pairs and the test.\<close>

definition patterns :: "(string \<times> string) list" where
  "patterns =
     [(''pl_'', ''planet_''), (''st_'', ''star_''), (''st_'', ''stellar_''),
      (''sy_'', ''system_''), (''_pc'', ''_parsec''), (''_e'', ''_earth''),
      (''_j'', ''_jupiter''), (''_d'', ''_days''), (''_yr'', ''_year'')]"

fun fuzzy_match_loop :: "(string \<times> string) list \<Rightarrow> string \<Rightarrow> string \<Rightarrow> bool" where
  "fuzzy_match_loop [] str1 str2 = False"
| "fuzzy_match_loop (pattern # rest) str1 str2 =
     (let str1_clean = remove_all (snd pattern) (remove_all (fst pattern) str1);
          str2_clean = remove_all (snd pattern) (remove_all (fst pattern) str2)
      in if str1_clean = str2_clean then True else fuzzy_match_loop rest str1 str2)"

definition fuzzy_match :: "string \<Rightarrow> string \<Rightarrow> bool" where
  "fuzzy_match str1 str2 = fuzzy_match_loop patterns str1 str2"

text \<open>The normal form of a header in \<open>detect_columns\<close>.\<close>

definition normalize_header :: "string \<Rightarrow> string" where
  "normalize_header h =
     replace_char CHR ''-'' CHR ''_'' (replace_char CHR '' '' CHR ''_'' (strip (lower h)))"

text \<open>
  The score of the substring rule:
  \<open>len(set(possible_name.lower()) & set(header_lower)) / max(len(possible_name), len(header_lower))\<close>.
  The quotient of two small integers and the thresholds 0.6 and 0.8 compare as floats
  exactly as they do as rationals.
\<close>

definition similarity :: "string \<Rightarrow> string \<Rightarrow> real" where
  "similarity possible_name header_lower =
     real (card (set (lower possible_name) \<inter> set header_lower))
       / real (max (length possible_name) (length header_lower))"

text \<open>
  The two inner loops over \<open>possible_names\<close> for one header; the pair is
  \<open>(best_match, best_score)\<close>.
\<close>

fun partial_matches ::
  "string \<Rightarrow> string \<Rightarrow> string list \<Rightarrow> string option \<times> real \<Rightarrow> string option \<times> real" where
  "partial_matches csv_col header_lower [] best = best"
| "partial_matches csv_col header_lower (possible_name # rest) best =
     (if py_in (lower possible_name) header_lower \<or> py_in header_lower (lower possible_name) then
        let score = similarity possible_name header_lower
        in if score > snd best \<and> score > 6/10
           then partial_matches csv_col header_lower rest (Some csv_col, score)
           else partial_matches csv_col header_lower rest best
      else partial_matches csv_col header_lower rest best)"

fun fuzzy_matches ::
  "string \<Rightarrow> string \<Rightarrow> string list \<Rightarrow> string option \<times> real \<Rightarrow> string option \<times> real" where
  "fuzzy_matches csv_col header_lower [] best = best"
| "fuzzy_matches csv_col header_lower (possible_name # rest) best =
     (if fuzzy_match header_lower (lower possible_name) then
        let score = 8/10
        in if score > snd best
           then fuzzy_matches csv_col header_lower rest (Some csv_col, score)
           else fuzzy_matches csv_col header_lower rest best
      else fuzzy_matches csv_col header_lower rest best)"

text \<open>
  The loop over \<open>zip(headers, headers_lower)\<close> for one field. The first component of
  the result is the header of an exact match, at which the loop breaks.
\<close>

fun scan_headers ::
  "string list \<Rightarrow> (string \<times> string) list \<Rightarrow> string option \<times> real
     \<Rightarrow> string option \<times> (string option \<times> real)" where
  "scan_headers possible_names [] best = (None, best)"
| "scan_headers possible_names ((csv_col, header_lower) # rest) best =
     (if header_lower \<in> set (map lower possible_names) then (Some csv_col, best)
      else scan_headers possible_names rest
             (fuzzy_matches csv_col header_lower possible_names
                (partial_matches csv_col header_lower possible_names best)))"

text \<open>\<open>d[k] = v\<close> on a dictionary kept as an association list in insertion order.\<close>

fun dict_set :: "('k \<times> 'v) list \<Rightarrow> 'k \<Rightarrow> 'v \<Rightarrow> ('k \<times> 'v) list" where
  "dict_set [] k v = [(k, v)]"
| "dict_set ((k', v') # d) k v = (if k' = k then (k, v) # d else (k', v') # dict_set d k v)"

text \<open>
  The outer loop over the fields of the table; the pair is
  \<open>(detected_mapping, confidence_scores)\<close>. \<open>if best_match\<close> is false for \<open>None\<close> and
  for an empty header.
\<close>

fun detect_fields ::
  "(string \<times> string list) list \<Rightarrow> (string \<times> string) list
     \<Rightarrow> (string \<times> string) list \<times> (string \<times> real) list
     \<Rightarrow> (string \<times> string) list \<times> (string \<times> real) list" where
  "detect_fields [] hs acc = acc"
| "detect_fields ((our_field, possible_names) # rest) hs acc =
     (let (exact, best) = scan_headers possible_names hs (None, 0);
          acc1 = (case exact of
                    None \<Rightarrow> acc
                  | Some csv_col \<Rightarrow> (dict_set (fst acc) our_field csv_col,
                                     dict_set (snd acc) our_field 1));
          acc2 = (if \<not> falsy_str (fst best) \<and> our_field \<notin> fst ` set (fst acc1)
                  then (dict_set (fst acc1) our_field (the (fst best)),
                        dict_set (snd acc1) our_field (snd best))
                  else acc1)
      in detect_fields rest hs acc2)"

text \<open>
  \<open>detect_columns\<close>, with the table it reads as an argument, and on the class
  constant.
\<close>

definition detect_columns_in ::
  "(string \<times> string list) list \<Rightarrow> string list
     \<Rightarrow> (string \<times> string) list \<times> (string \<times> real) list" where
  "detect_columns_in table headers =
     (let headers_lower = map normalize_header headers
      in detect_fields table (zip headers headers_lower) ([], []))"

definition detect_columns ::
  "string list \<Rightarrow> (string \<times> string) list \<times> (string \<times> real) list" where
  "detect_columns headers = detect_columns_in COLUMN_MAPPINGS headers"

text \<open>\<open>get_mapping_suggestions\<close> and \<open>_generate_suggestions\<close>.\<close>

definition required_fields :: "string list" where
  "required_fields =
     [''name'', ''distance'', ''star_type'', ''planet_radius'', ''orbital_period'',
      ''stellar_mass'']"

definition optional_fields :: "string list" where
  "optional_fields =
     [''planet_mass'', ''temperature'', ''discovery_year'', ''detection_method'',
      ''data_quality'']"

definition suggests :: "string list \<Rightarrow> string \<Rightarrow> bool" where
  "suggests possible_names header =
     (let header_lower = replace_char CHR ''-'' CHR ''_'' (replace_char CHR '' '' CHR ''_'' (lower header))
      in list_ex (\<lambda>possible_name.
                    py_in (lower possible_name) header_lower
                    \<or> py_in header_lower (lower possible_name)
                    \<or> fuzzy_match header_lower (lower possible_name)) possible_names)"

fun generate_suggestions :: "string list \<Rightarrow> string list \<Rightarrow> (string \<times> string list) list" where
  "generate_suggestions [] unmapped = []"
| "generate_suggestions (field # rest) unmapped =
     (let possible_names = (case map_of COLUMN_MAPPINGS field of None \<Rightarrow> [] | Some ns \<Rightarrow> ns);
          field_suggestions = filter (suggests possible_names) unmapped
      in if field_suggestions \<noteq> []
         then (field, take 3 field_suggestions) # generate_suggestions rest unmapped
         else generate_suggestions rest unmapped)"

record mapping_suggestions =
  detected_mapping :: "(string \<times> string) list"
  confidence_scores :: "(string \<times> real) list"
  missing_required :: "string list"
  missing_optional :: "string list"
  unmapped_headers :: "string list"
  mapping_quality :: real
  suggestions :: "(string \<times> string list) list"

definition get_mapping_suggestions :: "string list \<Rightarrow> mapping_suggestions" where
  "get_mapping_suggestions headers =
     (let (dm, cs) = detect_columns headers;
          miss_req = filter (\<lambda>field. field \<notin> fst ` set dm) required_fields;
          miss_opt = filter (\<lambda>field. field \<notin> fst ` set dm) optional_fields;
          unmapped = filter (\<lambda>h. h \<notin> snd ` set dm) headers
      in \<lparr> detected_mapping = dm, confidence_scores = cs,
           missing_required = miss_req, missing_optional = miss_opt,
           unmapped_headers = unmapped,
           mapping_quality = real (length dm) / real (length COLUMN_MAPPINGS),
           suggestions = generate_suggestions (miss_req @ miss_opt) unmapped \<rparr>)"

text \<open>
  \<open>validate_csv_columns\<close> and its \<open>ColumnMappingResponse\<close>. Nothing in the body
  raises in this model, so the handler that turns an exception into status 500 is
  left out.
\<close>

record ColumnMappingResponse = mapping_suggestions +
  validation_status :: string
  can_proceed :: bool

definition validate_csv_columns :: "string list \<Rightarrow> ColumnMappingResponse" where
  "validate_csv_columns headers =
     (let sugg = get_mapping_suggestions headers;
          proceed = (length (missing_required sugg) = 0);
          status0 = (if proceed then ''valid'' else ''missing_required_fields'');
          status = (if mapping_quality sugg < 5/10 then ''low_confidence'' else status0)
      in \<lparr> detected_mapping = detected_mapping sugg,
           confidence_scores = confidence_scores sugg,
           missing_required = missing_required sugg,
           missing_optional = missing_optional sugg,
           unmapped_headers = unmapped_headers sugg,
           mapping_quality = mapping_quality sugg,
           suggestions = suggestions sugg,
           validation_status = status,
           can_proceed = proceed \<rparr>)"

text \<open>
  A normalised header matches a synonym under the exact rule (equality), the substring
  rule (one contains the other and the score exceeds 0.6) or the fuzzy rule.
\<close>

definition matches_synonym :: "string \<Rightarrow> string \<Rightarrow> bool" where
  "matches_synonym header_lower possible_name =
     (header_lower = lower possible_name
      \<or> ((py_in (lower possible_name) header_lower \<or> py_in header_lower (lower possible_name))
          \<and> similarity possible_name header_lower > 6/10)
      \<or> fuzzy_match header_lower (lower possible_name))"

definition unmatched_header :: "string \<Rightarrow> bool" where
  "unmatched_header h =
     list_all (\<lambda>(field, possible_names).
                 list_all (\<lambda>possible_name. \<not> matches_synonym (normalize_header h) possible_name)
                   possible_names) COLUMN_MAPPINGS"

text \<open>The example header row of the NASA archive.\<close>

definition nasa_headers :: "string list" where
  "nasa_headers = [''pl_name'', ''sy_dist'', ''st_spectype'', ''pl_rade'', ''pl_orbper'', ''st_mass'']"

text \<open>
  Auxiliary notions for evaluating the detector on concrete headers: the two deletions
  of one pattern pair, the list of the cleaned forms of a string under all pairs, and
  the header at which the loop over the headers breaks.
\<close>

definition clean :: "string \<times> string \<Rightarrow> string \<Rightarrow> string" where
  "clean pat s = remove_all (snd pat) (remove_all (fst pat) s)"

definition signature :: "string \<Rightarrow> string list" where
  "signature s = map (\<lambda>pat. clean pat s) patterns"

definition sig_agree :: "string list \<Rightarrow> string list \<Rightarrow> bool" where
  "sig_agree xs ys = list_ex (\<lambda>(x, y). x = y) (zip xs ys)"

fun exact_header :: "string list \<Rightarrow> (string \<times> string) list \<Rightarrow> string option" where
  "exact_header names [] = None"
| "exact_header names ((csv_col, header_lower) # rest) =
     (if header_lower \<in> set (map lower names) then Some csv_col
      else exact_header names rest)"

definition nasa_pairs :: "(string \<times> string) list" where
  "nasa_pairs =
     [(''pl_name'', ''pl_name''), (''sy_dist'', ''sy_dist''),
      (''st_spectype'', ''st_spectype''), (''pl_rade'', ''pl_rade''),
      (''pl_orbper'', ''pl_orbper''), (''st_mass'', ''st_mass'')]"

section \<open>Scoring engine (backend/app/api/hwo\_scoring.py)\<close>

text \<open>
  \<open>ExoplanetTarget\<close>. The scoring functions test their attributes with \<open>hasattr\<close>,
  \<open>is not None\<close> and truth value, so every attribute they guard is an option here;
  \<open>None\<close> stands for an attribute that is missing or \<open>None\<close>.
\<close>

record ExoplanetTarget =
  name :: string
  distance :: "real option"
  star_type :: "string option"
  planet_radius :: "real option"
  orbital_period :: "real option"
  stellar_mass :: "real option"
  planet_mass :: "real option"
  temperature :: "real option"
  discovery_year :: "int option"
  detection_method :: "string option"
  data_quality :: "string option"

text \<open>A target that passes the pydantic model: the required attributes are present.\<close>

definition valid_target :: "ExoplanetTarget \<Rightarrow> bool" where
  "valid_target t =
     (distance t \<noteq> None \<and> star_type t \<noteq> None \<and> planet_radius t \<noteq> None
      \<and> orbital_period t \<noteq> None \<and> stellar_mass t \<noteq> None)"

definition encode_star_type :: "string option \<Rightarrow> real" where
  "encode_star_type st =
     (if falsy_str st then 5/10
      else
        let main_type = upper_char (hd (the st))
        in (case map_of [(CHR ''O'', 1/10), (CHR ''B'', 2/10), (CHR ''A'', 3/10),
                         (CHR ''F'', 5/10), (CHR ''G'', 8/10), (CHR ''K'', 9/10),
                         (CHR ''M'', 1)] main_type of
              None \<Rightarrow> 5/10 | Some v \<Rightarrow> v))"

definition encode_detection_method :: "string option \<Rightarrow> real" where
  "encode_detection_method method =
     (if falsy_str method then 5/10
      else
        let method_lower = lower (the method)
        in if py_in ''transit'' method_lower then 1
           else if py_in ''radial'' method_lower \<or> py_in ''velocity'' method_lower then 8/10
           else if py_in ''imaging'' method_lower then 6/10
           else if py_in ''microlensing'' method_lower then 4/10
           else 5/10)"

definition encode_data_quality :: "string option \<Rightarrow> real" where
  "encode_data_quality quality =
     (if falsy_str quality then 6/10
      else
        let quality_lower = lower (the quality)
        in if py_in ''excellent'' quality_lower then 1
           else if py_in ''good'' quality_lower then 8/10
           else if py_in ''fair'' quality_lower then 6/10
           else if py_in ''limited'' quality_lower \<or> py_in ''poor'' quality_lower then 4/10
           else 6/10)"

text \<open>
  \<open>_calculate_characterization_score\<close>. The pair is \<open>(score, weight_sum)\<close>, updated by
  the five guarded blocks in the order of the source.
\<close>

definition calculate_characterization_score :: "ExoplanetTarget \<Rightarrow> real" where
  "calculate_characterization_score target =
     (let sw0 = (0, 0);
          sw1 = (case distance target of
                   None \<Rightarrow> sw0
                 | Some d \<Rightarrow>
                     if d \<le> 50 then
                       let distance_score = (if d > 5 then max 0 (1 - (d - 5) / 45) else 1)
                       in (fst sw0 + distance_score * (3/10), snd sw0 + 3/10)
                     else sw0);
          sw2 = (if \<not> falsy_str (star_type target) then
                   let star_main_type = upper_char (hd (the (star_type target)));
                       star_score =
                         (case map_of [(CHR ''G'', 1), (CHR ''K'', 9/10), (CHR ''F'', 7/10),
                                       (CHR ''M'', 6/10), (CHR ''A'', 3/10)] star_main_type of
                            None \<Rightarrow> 5/10 | Some v \<Rightarrow> v)
                   in (fst sw1 + star_score * (25/100), snd sw1 + 25/100)
                 else sw1);
          sw3 = (case planet_radius target of
                   None \<Rightarrow> sw2
                 | Some r \<Rightarrow>
                     let planet_radius_earth = r * (112/10);
                         radius_score =
                           (if 5/10 \<le> planet_radius_earth \<and> planet_radius_earth \<le> 2
                              then 1 - \<bar>planet_radius_earth - 1\<bar> / 1
                            else max 0 (3/10 - \<bar>planet_radius_earth - 1\<bar> / 3))
                     in (fst sw2 + radius_score * (2/10), snd sw2 + 2/10));
          sw4 = (if \<not> falsy_str (data_quality target) then
                   let quality_score = encode_data_quality (data_quality target)
                   in (fst sw3 + quality_score * (15/100), snd sw3 + 15/100)
                 else sw3);
          sw5 = (case stellar_mass target of
                   None \<Rightarrow> sw4
                 | Some m \<Rightarrow>
                     let mass_score = max 0 (1 - \<bar>m - 1\<bar> / 1)
                     in (fst sw4 + mass_score * (1/10), snd sw4 + 1/10))
      in if snd sw5 > 0 then (fst sw5 / snd sw5) * 100 else 50)"

text \<open>The priority thresholds of \<open>score_target\<close>.\<close>

definition priority_of :: "real \<Rightarrow> string" where
  "priority_of characterization_score =
     (if characterization_score \<ge> 75 then ''High''
      else if characterization_score \<ge> 50 then ''Medium''
      else ''Low'')"

text \<open>
  \<open>_calculate_confidence\<close>. \<open>ml_predictions\<close> is the dictionary of raw model outputs,
  kept as an association list in insertion order.
\<close>

definition calculate_confidence :: "ExoplanetTarget \<Rightarrow> (string \<times> real) list \<Rightarrow> real" where
  "calculate_confidence target ml_predictions =
     (let data_fields = [distance target \<noteq> None, star_type target \<noteq> None,
                         planet_radius target \<noteq> None, orbital_period target \<noteq> None,
                         stellar_mass target \<noteq> None, data_quality target \<noteq> None];
          completeness = real (length (filter id data_fields)) / real (length data_fields);
          model_certainty =
            (case map_of ml_predictions ''habitability_probability'' of
               None \<Rightarrow> 8/10 | Some p \<Rightarrow> p);
          confidence = (completeness * (6/10) + model_certainty * (4/10)) * 100
      in min (max confidence 0) 100)"

text \<open>
  \<open>round(x, 1)\<close>: Python rounds to the nearest tenth, an exact tie going to the even
  neighbour.
\<close>

definition round_half_even :: "real \<Rightarrow> int" where
  "round_half_even y =
     (let f = \<lfloor>y\<rfloor>; d = y - of_int f
      in if d < 1/2 then f else if d > 1/2 then f + 1
         else if even f then f else f + 1)"

definition py_round1 :: "real \<Rightarrow> real" where
  "py_round1 x = of_int (round_half_even (x * 10)) / 10"

text \<open>
  The engine. \<open>models_loaded\<close> is the flag set by \<open>_load_models\<close>. The pickled
  regressor, classifier and scaler are opaque to this development: \<open>ml_block\<close> stands
  for the block of \<open>score_target\<close> that calls them (feature preparation, scaling and the
  two predictions), giving the updated \<open>ml_predictions\<close>, \<open>habitability_score\<close> and
  \<open>habitability_class\<close>, or the exception that escapes the block.
\<close>

record HWOScoringEngine =
  models_loaded :: bool
  ml_block :: "ExoplanetTarget \<Rightarrow> py_error + ((string \<times> real) list \<times> real \<times> string)"

text \<open>A CSV cell that is not NA: a number or a string.\<close>

datatype cell = CNum real | CStr string

record ScoringResult =
  target_name :: string
  characterization_score :: real
  habitability_score :: real
  habitability_class :: string
  ai_confidence :: real
  observation_priority :: string
  detailed_scores :: "(string \<times> real) list"
  ml_predictions :: "(string \<times> real) list"
  original_data :: "(string \<times> cell) list option"

text \<open>One entry of \<open>conversion_errors\<close>: \<open>"Row i: message"\<close> or \<open>"... and more errors"\<close>.\<close>

datatype conversion_error = RowError nat py_error | MoreErrors

text \<open>
  The \<open>detail\<close> of an \<open>HTTPException\<close>. \<open>NoValidTargets es\<close> is the message
  \<open>"No valid targets could be processed. Errors: "\<close> followed by the entries \<open>es\<close>
  joined with \<open>"; "\<close>.
\<close>

datatype detail =
    ModelsNotAvailable
  | ScoringFailed py_error
  | CsvEmpty
  | MissingRequiredColumns "string list" "(string \<times> string) list"
      "(string \<times> string list) list" "string list" "string list"
  | NoValidTargets "conversion_error list"

datatype http_error = HTTPException nat detail

text \<open>
  \<open>score_target\<close>. The model block is guarded by the literal \<open>False\<close> of the source.
  \<open>float(target.distance)\<close> and \<open>float(target.planet_radius)\<close> in the breakdown raise
  \<open>TypeError\<close> on \<open>None\<close>; every exception inside the \<open>try\<close> becomes status 500.
\<close>

definition score_target :: "HWOScoringEngine \<Rightarrow> ExoplanetTarget \<Rightarrow> http_error + ScoringResult" where
  "score_target eng target =
     (if \<not> models_loaded eng then Inl (HTTPException 503 ModelsNotAvailable)
      else
        let char_score = calculate_characterization_score target;
            defaults = ([], 50, ''Unknown'')
        in case (if False then ml_block eng target else Inr defaults) of
             Inl e \<Rightarrow> Inl (HTTPException 500 (ScoringFailed e))
           | Inr (ml_preds, hab_score, hab_class) \<Rightarrow>
               let confidence = calculate_confidence target ml_preds;
                   priority = priority_of char_score
               in (case distance target of
                     None \<Rightarrow> Inl (HTTPException 500 (ScoringFailed TypeError))
                   | Some d \<Rightarrow>
                  (case planet_radius target of
                     None \<Rightarrow> Inl (HTTPException 500 (ScoringFailed TypeError))
                   | Some r \<Rightarrow>
                       let scores =
                             [(''distance_factor'', min 100 (max 0 (100 - d))),
                              (''star_type_factor'', encode_star_type (star_type target) * 100),
                              (''planet_size_factor'', min 100 (100 / (\<bar>r * (112/10) - 1\<bar> + 1))),
                              (''data_quality_factor'', encode_data_quality (data_quality target) * 100)]
                       in Inr \<lparr> target_name = name target,
                                characterization_score = py_round1 char_score,
                                habitability_score = py_round1 hab_score,
                                habitability_class = hab_class,
                                ai_confidence = py_round1 confidence,
                                observation_priority = priority,
                                detailed_scores = scores,
                                ml_predictions = ml_preds,
                                original_data = None \<rparr>)))"

text \<open>
  A target none of whose attributes enters the weighted sum: the distance is missing or
  beyond 50 parsecs and the other four inputs are missing or empty.
\<close>

definition no_weighted_input :: "ExoplanetTarget \<Rightarrow> bool" where
  "no_weighted_input t =
     ((case distance t of None \<Rightarrow> True | Some d \<Rightarrow> \<not> d \<le> 50)
      \<and> falsy_str (star_type t) \<and> planet_radius t = None
      \<and> falsy_str (data_quality t) \<and> stellar_mass t = None)"

text \<open>Concrete targets and an engine with the models flagged as loaded.\<close>

definition earth_twin :: ExoplanetTarget where
  "earth_twin =
     \<lparr> name = ''Earth twin'', distance = Some (424/100), star_type = Some ''G2V'',
       planet_radius = Some (1/10), orbital_period = Some 365, stellar_mass = Some 1,
       planet_mass = None, temperature = None, discovery_year = None,
       detection_method = None, data_quality = Some ''Excellent'' \<rparr>"

definition bare_target :: ExoplanetTarget where
  "bare_target =
     \<lparr> name = ''bare'', distance = Some 120, star_type = None,
       planet_radius = None, orbital_period = None, stellar_mass = None,
       planet_mass = None, temperature = None, discovery_year = None,
       detection_method = None, data_quality = None \<rparr>"

definition heuristic_engine :: HWOScoringEngine where
  "heuristic_engine = \<lparr> models_loaded = True, ml_block = (\<lambda>t. Inl ValueError) \<rparr>"

section \<open>CSV upload (backend/app/api/hwo\_scoring.py)\<close>

text \<open>
  \<open>upload_csv_targets\<close> from the parsed data frame on: \<open>columns\<close> is
  \<open>df.columns\<close> and a row maps a column to its cell, \<open>None\<close> where pandas has NA.
  Python's own conversions of strings and numbers are parameters: \<open>float_of_str s\<close> and
  \<open>int_of_str s\<close> are the numbers that \<open>float(s)\<close> and \<open>int(s)\<close> return, \<open>None\<close>
  where they raise \<open>ValueError\<close>, and \<open>str_of_num x\<close> is \<open>str(x)\<close>.
\<close>

record conversions =
  float_of_str :: "string \<Rightarrow> real option"
  int_of_str :: "string \<Rightarrow> int option"
  str_of_num :: "real \<Rightarrow> string"

type_synonym row = "string \<rightharpoonup> cell"

fun cell_truthy :: "cell \<Rightarrow> bool" where
  "cell_truthy (CNum x) = (x \<noteq> 0)"
| "cell_truthy (CStr s) = (s \<noteq> [])"

fun cell_float :: "conversions \<Rightarrow> cell \<Rightarrow> py_error + real" where
  "cell_float cv (CNum x) = Inr x"
| "cell_float cv (CStr s) =
     (case float_of_str cv s of None \<Rightarrow> Inl ValueError | Some x \<Rightarrow> Inr x)"

text \<open>\<open>int(x)\<close> truncates a number towards zero.\<close>

fun cell_int :: "conversions \<Rightarrow> cell \<Rightarrow> py_error + int" where
  "cell_int cv (CNum x) = Inr (if x \<ge> 0 then \<lfloor>x\<rfloor> else \<lceil>x\<rceil>)"
| "cell_int cv (CStr s) =
     (case int_of_str cv s of None \<Rightarrow> Inl ValueError | Some n \<Rightarrow> Inr n)"

fun cell_str :: "conversions \<Rightarrow> cell \<Rightarrow> string" where
  "cell_str cv (CNum x) = str_of_num cv x"
| "cell_str cv (CStr s) = s"

text \<open>Sequencing of computations that may raise: the first exception wins.\<close>

definition and_then :: "'e + 'a \<Rightarrow> ('a \<Rightarrow> 'e + 'b) \<Rightarrow> 'e + 'b" where
  "and_then m f = (case m of Inl e \<Rightarrow> Inl e | Inr x \<Rightarrow> f x)"

text \<open>
  \<open>target_data\<close>: the cell of each mapped field, where its column exists and the cell
  is not NA. \<open>original_row_data\<close>: the cells of the row that are not NA, in column order.
\<close>

definition target_data :: "(string \<times> string) list \<Rightarrow> string list \<Rightarrow> row \<Rightarrow> row" where
  "target_data mapping columns r our_field =
     (case map_of mapping our_field of
        None \<Rightarrow> None
      | Some csv_column \<Rightarrow> if csv_column \<in> set columns then r csv_column else None)"

definition original_row_data :: "string list \<Rightarrow> row \<Rightarrow> (string \<times> cell) list" where
  "original_row_data columns r = List.map_filter (\<lambda>col. map_option (Pair col) (r col)) columns"

text \<open>
  The body of the \<open>try\<close>: the keyword arguments of \<open>ExoplanetTarget(...)\<close> are evaluated
  from left to right, and the first conversion that fails raises.
\<close>

definition optional_float :: "conversions \<Rightarrow> cell option \<Rightarrow> py_error + real option" where
  "optional_float cv v =
     (case v of
        None \<Rightarrow> Inr None
      | Some c \<Rightarrow> if cell_truthy c then and_then (cell_float cv c) (\<lambda>x. Inr (Some x)) else Inr None)"

definition optional_int :: "conversions \<Rightarrow> cell option \<Rightarrow> py_error + int option" where
  "optional_int cv v =
     (case v of
        None \<Rightarrow> Inr None
      | Some c \<Rightarrow> if cell_truthy c then and_then (cell_int cv c) (\<lambda>n. Inr (Some n)) else Inr None)"

definition float_or :: "conversions \<Rightarrow> cell option \<Rightarrow> real \<Rightarrow> py_error + real" where
  "float_or cv v dflt = (case v of None \<Rightarrow> Inr dflt | Some c \<Rightarrow> cell_float cv c)"

definition str_or :: "conversions \<Rightarrow> cell option \<Rightarrow> string \<Rightarrow> string" where
  "str_or cv v dflt = (case v of None \<Rightarrow> dflt | Some c \<Rightarrow> cell_str cv c)"

definition build_target ::
  "conversions \<Rightarrow> (string \<times> string) list \<Rightarrow> string list \<Rightarrow> nat \<Rightarrow> row
     \<Rightarrow> py_error + ExoplanetTarget" where
  "build_target cv mapping columns index r =
     (let td = target_data mapping columns r;
          target_name = str_or cv (td ''name'') (''Target-'' @ str_of_nat (index + 1))
      in and_then (float_or cv (td ''distance'') 0) (\<lambda>dist.
         let st = str_or cv (td ''star_type'') ''Unknown''
         in and_then (float_or cv (td ''planet_radius'') 0) (\<lambda>radius.
            and_then (float_or cv (td ''orbital_period'') 0) (\<lambda>period.
            and_then (float_or cv (td ''stellar_mass'') 1) (\<lambda>smass.
            and_then (optional_float cv (td ''planet_mass'')) (\<lambda>pmass.
            and_then (optional_float cv (td ''temperature'')) (\<lambda>temp.
            and_then (optional_int cv (td ''discovery_year'')) (\<lambda>year.
            Inr \<lparr> name = target_name, distance = Some dist, star_type = Some st,
                  planet_radius = Some radius, orbital_period = Some period,
                  stellar_mass = Some smass, planet_mass = pmass, temperature = temp,
                  discovery_year = year,
                  detection_method = map_option (cell_str cv) (td ''detection_method''),
                  data_quality = Some (str_or cv (td ''data_quality'') ''Good'') \<rparr>))))))))"

text \<open>
  The loop over \<open>df.iterrows()\<close>; the state is
  \<open>(targets, conversion_errors, original_rows)\<close>. A row that fails appends its error,
  and when more than 10 errors have accumulated the marker is appended and the loop
  is left by \<open>break\<close>.
\<close>

fun convert_rows ::
  "conversions \<Rightarrow> (string \<times> string) list \<Rightarrow> string list \<Rightarrow> nat \<Rightarrow> row list
     \<Rightarrow> ExoplanetTarget list \<times> conversion_error list \<times> (string \<times> cell) list list
     \<Rightarrow> ExoplanetTarget list \<times> conversion_error list \<times> (string \<times> cell) list list" where
  "convert_rows cv mapping columns index [] state = state"
| "convert_rows cv mapping columns index (r # rest) (targets, conv_errors, original_rows) =
     (case build_target cv mapping columns index r of
        Inr target \<Rightarrow>
          convert_rows cv mapping columns (Suc index) rest
            (targets @ [target], conv_errors, original_rows @ [original_row_data columns r])
      | Inl e \<Rightarrow>
          let conv_errors' = conv_errors @ [RowError (index + 1) e]
          in if length conv_errors' > 10
             then (targets, conv_errors' @ [MoreErrors], original_rows)
             else convert_rows cv mapping columns (Suc index) rest
                    (targets, conv_errors', original_rows))"

text \<open>
  The scoring loop over \<open>enumerate(targets)\<close>; the state is \<open>(results, errors)\<close>, an
  error entry being the target's name and the exception.
\<close>

fun score_targets ::
  "HWOScoringEngine \<Rightarrow> (string \<times> cell) list list \<Rightarrow> nat \<Rightarrow> ExoplanetTarget list
     \<Rightarrow> ScoringResult list \<times> (string \<times> http_error) list
     \<Rightarrow> ScoringResult list \<times> (string \<times> http_error) list" where
  "score_targets eng original_rows i [] state = state"
| "score_targets eng original_rows i (target # rest) (scored, failed) =
     (case score_target eng target of
        Inr result \<Rightarrow>
          let result' = (if i < length original_rows
                         then result\<lparr>original_data := Some (original_rows ! i)\<rparr>
                         else result)
          in score_targets eng original_rows (Suc i) rest (scored @ [result'], failed)
      | Inl e \<Rightarrow>
          score_targets eng original_rows (Suc i) rest (scored, failed @ [(name target, e)]))"

text \<open>
  The response. In \<open>processing_summary\<close> the entries \<open>detected_mapping\<close> and
  \<open>confidence_scores\<close> of the source are the fields \<open>used_mapping\<close> and
  \<open>used_confidence\<close>.
\<close>

record processing_summary =
  total_targets :: nat
  successful_scores :: nat
  failed_scores :: nat
  errors :: "(string \<times> http_error) list"
  used_mapping :: "(string \<times> string) list"
  used_confidence :: "(string \<times> real) list"
  conversion_errors :: "conversion_error list"
  rows_processed :: nat
  valid_targets :: nat

record BatchScoringResponse =
  results :: "ScoringResult list"
  summary :: processing_summary

text \<open>
  \<open>upload_csv_targets\<close>. The second component of the result lists the targets that
  were handed to \<open>score_target\<close>, in order: none when the upload fails before the
  scoring loop.
\<close>

definition upload_csv_targets ::
  "HWOScoringEngine \<Rightarrow> conversions \<Rightarrow> string list \<Rightarrow> row list
     \<Rightarrow> (http_error + BatchScoringResponse) \<times> ExoplanetTarget list" where
  "upload_csv_targets eng cv columns rows =
     (if rows = [] \<or> columns = [] then (Inl (HTTPException 400 CsvEmpty), [])
      else
        let (mapping, confidence) = detect_columns columns;
            missing = filter (\<lambda>field. field \<notin> fst ` set mapping) required_fields
        in if missing \<noteq> [] then
             let sugg = get_mapping_suggestions columns
             in (Inl (HTTPException 400
                        (MissingRequiredColumns missing mapping (suggestions sugg)
                           (unmapped_headers sugg) columns)), [])
           else
             let (targets, conv_errors, original_rows) =
                   convert_rows cv mapping columns 0 rows ([], [], [])
             in if targets = [] then
                  (Inl (HTTPException 400 (NoValidTargets (take 5 conv_errors))), [])
                else
                  let (scored, failed) = score_targets eng original_rows 0 targets ([], [])
                  in (Inr \<lparr> results = scored,
                             summary =
                               \<lparr> total_targets = length targets,
                                 successful_scores = length scored,
                                 failed_scores = length failed,
                                 errors = failed,
                                 used_mapping = mapping,
                                 used_confidence = confidence,
                                 conversion_errors = conv_errors,
                                 rows_processed = length rows,
                                 valid_targets = length targets \<rparr> \<rparr>,
                      targets))"

text \<open>
  The per-row errors and the converted targets of a batch, in row order, whatever the
  loop does with them: a batch of \<open>N\<close> rows of which \<open>K\<close> fail has \<open>K\<close> entries in
  \<open>row_failures\<close> and \<open>N - K\<close> in \<open>row_targets\<close>.
\<close>

fun row_failures ::
  "conversions \<Rightarrow> (string \<times> string) list \<Rightarrow> string list \<Rightarrow> nat \<Rightarrow> row list
     \<Rightarrow> conversion_error list" where
  "row_failures cv mapping columns index [] = []"
| "row_failures cv mapping columns index (r # rest) =
     (case build_target cv mapping columns index r of
        Inl e \<Rightarrow> RowError (index + 1) e # row_failures cv mapping columns (Suc index) rest
      | Inr target \<Rightarrow> row_failures cv mapping columns (Suc index) rest)"

fun row_targets ::
  "conversions \<Rightarrow> (string \<times> string) list \<Rightarrow> string list \<Rightarrow> nat \<Rightarrow> row list
     \<Rightarrow> ExoplanetTarget list" where
  "row_targets cv mapping columns index [] = []"
| "row_targets cv mapping columns index (r # rest) =
     (case build_target cv mapping columns index r of
        Inl e \<Rightarrow> row_targets cv mapping columns (Suc index) rest
      | Inr target \<Rightarrow> target # row_targets cv mapping columns (Suc index) rest)"

section \<open>Properties\<close>

subsection \<open>CDHS temperature component\<close>

lemma temperature_score_default_unfold:
  "calculate_temperature_score default_criteria t =
     (if t < 273 \<or> t > 373 then 0 else max 0 (1 - \<bar>t - 288\<bar> / 85))"
  by (simp add: calculate_temperature_score_def default_criteria_def Let_def)

text \<open>
  Claim C10. With the default criteria, the CDHS temperature component is 0 for every
  temperature outside the closed interval from 273 to 373 kelvin, equals
  \<open>1 - |t - 288| / 85\<close> inside it, and always lies between 0 and 1.
\<close>

theorem cdhs_temperature_score_shape:
  "((t < 273 \<or> t > 373) \<longrightarrow> calculate_temperature_score default_criteria t = 0)
   \<and> ((273 \<le> t \<and> t \<le> 373) \<longrightarrow>
        calculate_temperature_score default_criteria t = 1 - \<bar>t - 288\<bar> / 85)
   \<and> 0 \<le> calculate_temperature_score default_criteria t
   \<and> calculate_temperature_score default_criteria t \<le> 1"
proof -
  have inside: "1 - \<bar>t - 288\<bar> / 85 \<ge> 0" if "273 \<le> t" "t \<le> 373"
  proof -
    from that have "\<bar>t - 288\<bar> \<le> 85" by (simp add: abs_le_iff)
    then show ?thesis by simp
  qed
  show ?thesis
    unfolding temperature_score_default_unfold
    using inside by (auto simp: max_def)
qed

theorem cdhs_temperature_score_shape_witness:
  "calculate_temperature_score default_criteria 200 = 0
   \<and> calculate_temperature_score default_criteria 400 = 0
   \<and> calculate_temperature_score default_criteria 300 = 73 / 85"
  using cdhs_temperature_score_shape [of 200] cdhs_temperature_score_shape [of 400]
    cdhs_temperature_score_shape [of 300]
  by simp

subsection \<open>The Earth-like reference input\<close>

lemma sephi_earth_value:
  "calculate_sephi_score 288 1 5778 365 None None =
     Inr \<lparr> sephi_score = 1,
           component_scores = [(Temperature, 1), (Size, 1), (Stellar, 1), (Orbital, 1)] \<rparr>"
  by (simp add: calculate_sephi_score_def calculate_size_score_def sephi_temperature_score_def
      calculate_stellar_score_def calculate_orbital_score_def EARTH_RADIUS_def EARTH_TEMP_def
      SOL_TEMP_def EARTH_ORBIT_def)

lemma cdhs_earth_unfold:
  "calculate_cdhs default_criteria 288 1 f 0 365 =
     min 1 (max 0 (8/10 + calculate_flux_score default_criteria f * (2/10)))"
  by (simp add: calculate_cdhs_def calculate_temperature_score_def calculate_radius_score_def
      calculate_stability_score_def default_criteria_def Let_def)

lemma flux_score_default_unfold:
  "calculate_flux_score default_criteria f =
     (if f < 1/2 \<or> f > 2 then 0 else max 0 (1 - \<bar>f - 1\<bar>))"
  by (simp add: calculate_flux_score_def default_criteria_def Let_def)

text \<open>
  Claim C5. At radius 1 Earth radius, equilibrium temperature 288 K, stellar temperature
  5778 K, orbital period 365 days and eccentricity 0, the SEPHI composite and the CDHS
  composite are both within 0.05 of 1 (both are 1). \<open>calculate_cdhs\<close> takes the stellar
  flux in place of the stellar temperature; the flux of this input is the Earth value
  1.0 of the source ("Earth = 1.0").
\<close>

theorem sephi_cdhs_earth_like:
  "(\<exists>r. calculate_sephi_score 288 1 5778 365 None None = Inr r
        \<and> \<bar>sephi_score r - 1\<bar> \<le> 5/100)
   \<and> \<bar>calculate_cdhs default_criteria 288 1 1 0 365 - 1\<bar> \<le> 5/100"
  by (simp add: sephi_earth_value cdhs_earth_unfold flux_score_default_unfold)

subsection \<open>Observability scores\<close>

lemma spectroscopic_feasibility_range:
  "spectroscopic_feasibility c l = Inr x \<Longrightarrow> 0 \<le> x \<and> x \<le> 1"
  by (auto simp: spectroscopic_feasibility_def Let_def split: if_splits)

lemma iwa_check_score_range:
  "0 \<le> iwa_check_score s i" "iwa_check_score s i \<le> 1"
  by (simp_all add: iwa_check_score_def Let_def)

text \<open>
  Every result that \<open>compute_observability\<close> returns has its three scores between 0
  and 1.
\<close>

lemma compute_observability_range:
  assumes "compute_observability fos planet params = Inr r"
  shows "0 \<le> spectroscopic_score r \<and> spectroscopic_score r \<le> 1
         \<and> 0 \<le> iwa_score r \<and> iwa_score r \<le> 1
         \<and> 0 \<le> observability_score r \<and> observability_score r \<le> 1"
  using assms iwa_check_score_range
  by (auto simp: compute_observability_def Let_def split: sum.splits
      dest: spectroscopic_feasibility_range)

text \<open>
  Claim C9 at a row of the CSV endpoint. On \<open>csv_row\<close>, whatever the parameters and
  whatever Python's parsing of strings, \<open>compute_observability\<close> returns no scores: the
  fallback \<open>planet.get("pl_orbper", 365.0) ** (2/3)\<close> raises \<open>TypeError\<close> on the string.
\<close>

theorem compute_observability_csv_row:
  "compute_observability fos csv_row params = Inl TypeError"
  by (simp add: compute_observability_def csv_row_def get_default_def)

subsection \<open>Characterization score and priority\<close>

lemma weighted_step:
  fixes a b x w :: real
  assumes "0 \<le> a" "a \<le> b" "0 \<le> x" "x \<le> 1" "0 \<le> w"
  shows "0 \<le> a + x * w \<and> a + x * w \<le> b + w"
proof -
  have "x * w \<le> 1 * w" using assms by (intro mult_right_mono) auto
  moreover have "0 \<le> x * w" using assms by simp
  ultimately show ?thesis using assms by simp
qed

lemma scale100:
  fixes q :: real
  assumes "0 \<le> q" "q \<le> 1"
  shows "0 \<le> q * 100 \<and> q * 100 \<le> 100"
  using assms by simp

lemma radius_score_range:
  fixes e :: real
  shows "0 \<le> (if 5/10 \<le> e \<and> e \<le> 2 then 1 - \<bar>e - 1\<bar> / 1 else max 0 (3/10 - \<bar>e - 1\<bar> / 3))
       \<and> (if 5/10 \<le> e \<and> e \<le> 2 then 1 - \<bar>e - 1\<bar> / 1 else max 0 (3/10 - \<bar>e - 1\<bar> / 3)) \<le> 1"
proof -
  have "3/10 - \<bar>e - 1\<bar> / 3 \<le> 1"
  proof -
    have "0 \<le> \<bar>e - 1\<bar> / 3" by simp
    then show ?thesis by linarith
  qed
  then show ?thesis by (auto simp: abs_if)
qed

lemma encode_data_quality_range: "0 \<le> encode_data_quality q \<and> encode_data_quality q \<le> 1"
  by (simp add: encode_data_quality_def Let_def)

lemma star_score_range:
  "0 \<le> (case map_of [(CHR ''G'', 1), (CHR ''K'', 9/10), (CHR ''F'', 7/10),
                                       (CHR ''M'', 6/10), (CHR ''A'', 3/10)] c of
                            None \<Rightarrow> 5/10 | Some v \<Rightarrow> (v::real))
  \<and> (case map_of [(CHR ''G'', 1), (CHR ''K'', 9/10), (CHR ''F'', 7/10),
                                       (CHR ''M'', 6/10), (CHR ''A'', 3/10)] c of
                            None \<Rightarrow> 5/10 | Some v \<Rightarrow> (v::real)) \<le> 1"
  by simp

lemma characterization_score_form:
  "\<exists>s w. 0 \<le> s \<and> s \<le> w
     \<and> calculate_characterization_score t = (if w > 0 then (s / w) * 100 else 50)"
proof -
  define sw0 :: "real \<times> real" where "sw0 = (0, 0)"
  define sw1 where "sw1 = (case distance t of
                   None \<Rightarrow> sw0
                 | Some d \<Rightarrow>
                     if d \<le> 50 then
                       let distance_score = (if d > 5 then max 0 (1 - (d - 5) / 45) else 1)
                       in (fst sw0 + distance_score * (3/10), snd sw0 + 3/10)
                     else sw0)"
  define sw2 where "sw2 = (if \<not> falsy_str (star_type t) then
                   let star_main_type = upper_char (hd (the (star_type t)));
                       star_score =
                         (case map_of [(CHR ''G'', 1), (CHR ''K'', 9/10), (CHR ''F'', 7/10),
                                       (CHR ''M'', 6/10), (CHR ''A'', 3/10)] star_main_type of
                            None \<Rightarrow> 5/10 | Some v \<Rightarrow> v)
                   in (fst sw1 + star_score * (25/100), snd sw1 + 25/100)
                 else sw1)"
  define sw3 where "sw3 = (case planet_radius t of
                   None \<Rightarrow> sw2
                 | Some r \<Rightarrow>
                     let planet_radius_earth = r * (112/10);
                         radius_score =
                           (if 5/10 \<le> planet_radius_earth \<and> planet_radius_earth \<le> 2
                              then 1 - \<bar>planet_radius_earth - 1\<bar> / 1
                            else max 0 (3/10 - \<bar>planet_radius_earth - 1\<bar> / 3))
                     in (fst sw2 + radius_score * (2/10), snd sw2 + 2/10))"
  define sw4 where "sw4 = (if \<not> falsy_str (data_quality t) then
                   let quality_score = encode_data_quality (data_quality t)
                   in (fst sw3 + quality_score * (15/100), snd sw3 + 15/100)
                 else sw3)"
  define sw5 where "sw5 = (case stellar_mass t of
                   None \<Rightarrow> sw4
                 | Some m \<Rightarrow>
                     let mass_score = max 0 (1 - \<bar>m - 1\<bar> / 1)
                     in (fst sw4 + mass_score * (1/10), snd sw4 + 1/10))"
  have i0: "0 \<le> fst sw0 \<and> fst sw0 \<le> snd sw0" by (simp add: sw0_def)
  have i1: "0 \<le> fst sw1 \<and> fst sw1 \<le> snd sw1"
  proof (cases "distance t")
    case None then show ?thesis using i0 by (simp add: sw1_def)
  next
    case (Some d)
    show ?thesis
    proof (cases "d \<le> 50")
      case False then show ?thesis using i0 Some by (simp add: sw1_def)
    next
      case True
      define x :: real where "x = (if d > 5 then max 0 (1 - (d - 5) / 45) else 1)"
      have x: "0 \<le> x" "x \<le> 1" by (simp_all add: x_def)
      have eq: "sw1 = (fst sw0 + x * (3/10), snd sw0 + 3/10)"
        using Some True by (simp add: sw1_def x_def Let_def)
      from weighted_step[of "fst sw0" "snd sw0" x "3/10"] i0 x show ?thesis
        unfolding eq by simp
    qed
  qed
  have i2: "0 \<le> fst sw2 \<and> fst sw2 \<le> snd sw2"
  proof (cases "falsy_str (star_type t)")
    case True then show ?thesis using i1 by (simp add: sw2_def)
  next
    case False
    define x :: real where "x = (case map_of [(CHR ''G'', 1), (CHR ''K'', 9/10), (CHR ''F'', 7/10),
                                       (CHR ''M'', 6/10), (CHR ''A'', 3/10)]
                                  (upper_char (hd (the (star_type t)))) of
                            None \<Rightarrow> 5/10 | Some v \<Rightarrow> v)"
    have x: "0 \<le> x" "x \<le> 1" by (simp_all add: x_def)
    have eq: "sw2 = (fst sw1 + x * (25/100), snd sw1 + 25/100)"
      using False by (simp add: sw2_def x_def Let_def)
    from weighted_step[of "fst sw1" "snd sw1" x "25/100"] i1 x show ?thesis
      unfolding eq by simp
  qed
  have i3: "0 \<le> fst sw3 \<and> fst sw3 \<le> snd sw3"
  proof (cases "planet_radius t")
    case None then show ?thesis using i2 by (simp add: sw3_def)
  next
    case (Some r)
    define x :: real where "x = (if 5/10 \<le> r * (112/10) \<and> r * (112/10) \<le> 2
                              then 1 - \<bar>r * (112/10) - 1\<bar> / 1
                            else max 0 (3/10 - \<bar>r * (112/10) - 1\<bar> / 3))"
    have x: "0 \<le> x" "x \<le> 1"
      using radius_score_range[of "r * (112/10)"] unfolding x_def by blast+
    have eq: "sw3 = (fst sw2 + x * (2/10), snd sw2 + 2/10)"
      using Some by (simp add: sw3_def x_def Let_def)
    from weighted_step[of "fst sw2" "snd sw2" x "2/10"] i2 x show ?thesis
      unfolding eq by simp
  qed
  have i4: "0 \<le> fst sw4 \<and> fst sw4 \<le> snd sw4"
  proof (cases "falsy_str (data_quality t)")
    case True then show ?thesis using i3 by (simp add: sw4_def)
  next
    case False
    define x :: real where "x = encode_data_quality (data_quality t)"
    have x: "0 \<le> x" "x \<le> 1"
      using encode_data_quality_range[of "data_quality t"] unfolding x_def by blast+
    have eq: "sw4 = (fst sw3 + x * (15/100), snd sw3 + 15/100)"
      using False by (simp add: sw4_def x_def Let_def)
    from weighted_step[of "fst sw3" "snd sw3" x "15/100"] i3 x show ?thesis
      unfolding eq by simp
  qed
  have i5: "0 \<le> fst sw5 \<and> fst sw5 \<le> snd sw5"
  proof (cases "stellar_mass t")
    case None then show ?thesis using i4 by (simp add: sw5_def)
  next
    case (Some m)
    define x :: real where "x = max 0 (1 - \<bar>m - 1\<bar> / 1)"
    have x: "0 \<le> x" "x \<le> 1" by (simp_all add: x_def)
    have eq: "sw5 = (fst sw4 + x * (1/10), snd sw4 + 1/10)"
      using Some by (simp add: sw5_def x_def Let_def)
    from weighted_step[of "fst sw4" "snd sw4" x "1/10"] i4 x show ?thesis
      unfolding eq by simp
  qed
  have "calculate_characterization_score t =
          (if snd sw5 > 0 then (fst sw5 / snd sw5) * 100 else 50)"
    unfolding calculate_characterization_score_def Let_def sw5_def sw4_def sw3_def sw2_def sw1_def sw0_def
    by (rule refl)
  with i5 show ?thesis by blast
qed

lemma characterization_score_range:
  "0 \<le> calculate_characterization_score t \<and> calculate_characterization_score t \<le> 100"
proof -
  obtain s w where sw: "0 \<le> s" "s \<le> w"
     "calculate_characterization_score t = (if w > 0 then (s / w) * 100 else 50)"
    using characterization_score_form by blast
  show ?thesis
  proof (cases "w > 0")
    case True
    have "0 \<le> s / w" using sw True by simp
    moreover have "s / w \<le> 1" using sw True by simp
    ultimately have "0 \<le> (s / w) * 100 \<and> (s / w) * 100 \<le> 100" by (rule scale100)
    then show ?thesis using sw(3) True by (simp only: if_True)
  next
    case False then show ?thesis using sw by simp
  qed
qed

lemma no_weighted_input_default:
  "no_weighted_input t \<Longrightarrow> calculate_characterization_score t = 50"
  by (auto simp: no_weighted_input_def calculate_characterization_score_def Let_def
      split: option.splits)

lemma score_target_priority:
  "score_target eng t = Inr r \<Longrightarrow>
     observation_priority r = priority_of (calculate_characterization_score t)"
  by (auto simp: score_target_def Let_def split: if_splits option.splits)

lemma py_round1_50: "py_round1 50 = 50"
  by (simp add: py_round1_def round_half_even_def Let_def)

text \<open>
  Claim C4. The characterization score of every target lies between 0 and 100, it is 50
  when no weighted input is present, and the observation priority of every result of
  \<open>score_target\<close> is determined by that score alone: High from 75, Medium from 50,
  Low below.
\<close>

theorem characterization_score_and_priority:
  "0 \<le> calculate_characterization_score t \<and> calculate_characterization_score t \<le> 100
   \<and> (no_weighted_input t \<longrightarrow> calculate_characterization_score t = 50)
   \<and> (\<forall>eng r. score_target eng t = Inr r \<longrightarrow>
         observation_priority r =
           (if calculate_characterization_score t \<ge> 75 then ''High''
            else if calculate_characterization_score t \<ge> 50 then ''Medium''
            else ''Low''))"
  using characterization_score_range [of t] no_weighted_input_default [of t]
    score_target_priority [of _ t]
  by (simp add: priority_of_def)

lemma earth_twin_strings:
  "lower ''Excellent'' = ''excellent''" "upper_char CHR ''G'' = CHR ''G''"
  by code_simp+

lemma earth_twin_score: "calculate_characterization_score earth_twin = 976/10"
  by (simp add: calculate_characterization_score_def earth_twin_def encode_data_quality_def
      earth_twin_strings Let_def)

lemma earth_twin_scored: "\<exists>r. score_target heuristic_engine earth_twin = Inr r"
  by (simp add: score_target_def heuristic_engine_def Let_def earth_twin_def)

theorem characterization_score_and_priority_witness:
  "no_weighted_input bare_target \<and> calculate_characterization_score bare_target = 50
   \<and> (\<exists>r. score_target heuristic_engine earth_twin = Inr r \<and> observation_priority r = ''High'')"
proof -
  have b: "no_weighted_input bare_target"
    by (simp add: no_weighted_input_def bare_target_def)
  obtain r where r: "score_target heuristic_engine earth_twin = Inr r"
    using earth_twin_scored by blast
  from characterization_score_and_priority [of bare_target] b
  have "calculate_characterization_score bare_target = 50" by blast
  moreover from characterization_score_and_priority [of earth_twin] r
  have "observation_priority r = ''High''" by (simp add: earth_twin_score)
  ultimately show ?thesis using b r by blast
qed

text \<open>
  Claim C8. Every result that \<open>score_target\<close> returns has habitability score 50.0,
  habitability class "Unknown" and no model predictions: the model block is guarded by
  a constant false condition, whatever that block would compute.
\<close>

theorem score_target_heuristic_defaults:
  "score_target eng t = Inr r \<Longrightarrow>
     habitability_score r = 50 \<and> habitability_class r = ''Unknown'' \<and> ml_predictions r = []"
  by (auto simp: score_target_def Let_def py_round1_50 split: if_splits option.splits)

theorem score_target_heuristic_defaults_witness:
  "\<exists>r. score_target heuristic_engine earth_twin = Inr r
       \<and> habitability_score r = 50 \<and> habitability_class r = ''Unknown'' \<and> ml_predictions r = []"
  using score_target_heuristic_defaults [of heuristic_engine earth_twin] earth_twin_scored
  by blast

subsection \<open>Column detection\<close>

lemma fuzzy_match_loop_sig:
  "fuzzy_match_loop ps a b =
     sig_agree (map (\<lambda>pat. clean pat a) ps) (map (\<lambda>pat. clean pat b) ps)"
  by (induction ps) (auto simp: sig_agree_def clean_def Let_def)

lemma fuzzy_match_sig: "fuzzy_match a b = sig_agree (signature a) (signature b)"
  by (simp add: fuzzy_match_def signature_def fuzzy_match_loop_sig)

lemma card_inter_list:
  "card (set a \<inter> set b) = length (remdups (filter (\<lambda>c. c \<in> set b) a))"
proof -
  have "set a \<inter> set b = set (filter (\<lambda>c. c \<in> set b) a)" by auto
  then show ?thesis by (simp add: length_remdups_card_conv)
qed

lemma similarity_list:
  "similarity possible_name header_lower =
     real (length (remdups (filter (\<lambda>c. c \<in> set header_lower) (lower possible_name))))
       / real (max (length possible_name) (length header_lower))"
  by (simp add: similarity_def card_inter_list)

lemma scan_headers_exact: "fst (scan_headers names hs best) = exact_header names hs"
  by (induction names hs best rule: scan_headers.induct) auto

lemma dict_set_key: "k \<in> fst ` set (dict_set d k v)"
  by (induction d k v rule: dict_set.induct) auto

lemma detect_fields_step:
  "detect_fields ((f, names) # rest) hs acc =
     (case fst (scan_headers names hs (None, 0)) of
        Some c \<Rightarrow> detect_fields rest hs (dict_set (fst acc) f c, dict_set (snd acc) f 1)
      | None \<Rightarrow>
          (let best = snd (scan_headers names hs (None, 0))
           in detect_fields rest hs
                (if \<not> falsy_str (fst best) \<and> f \<notin> fst ` set (fst acc)
                 then (dict_set (fst acc) f (the (fst best)), dict_set (snd acc) f (snd best))
                 else acc)))"
  by (cases "scan_headers names hs (None, 0)") (auto simp: dict_set_key split: option.splits)

text \<open>The synonyms are lower-case already, and their cleaned forms are as follows.\<close>

lemma lower_name:
  "lower ''name'' = ''name''" "lower ''planet_name'' = ''planet_name''"
  "lower ''pl_name'' = ''pl_name''" "lower ''target_name'' = ''target_name''"
  "lower ''object_name'' = ''object_name''" "lower ''identifier'' = ''identifier''"
  "lower ''designation'' = ''designation''" "lower ''common_name'' = ''common_name''"
  "lower ''planet'' = ''planet''" "lower ''target'' = ''target''"
  "lower ''object'' = ''object''" "lower ''source_name'' = ''source_name''"
  "lower ''catalogue_name'' = ''catalogue_name''"
  "lower ''exoplanet_name'' = ''exoplanet_name''"
  by code_simp+

lemma lower_distance:
  "lower ''distance'' = ''distance''" "lower ''dist'' = ''dist''"
  "lower ''sy_dist'' = ''sy_dist''" "lower ''distance_pc'' = ''distance_pc''"
  "lower ''dist_pc'' = ''dist_pc''" "lower ''parallax_distance'' = ''parallax_distance''"
  "lower ''stellar_distance'' = ''stellar_distance''"
  "lower ''star_distance'' = ''star_distance''"
  "lower ''system_distance'' = ''system_distance''" "lower ''parsecs'' = ''parsecs''"
  "lower ''pc'' = ''pc''" "lower ''d'' = ''d''" "lower ''dist_parsec'' = ''dist_parsec''"
  by code_simp+

lemma lower_star_type:
  "lower ''star_type'' = ''star_type''" "lower ''stellar_type'' = ''stellar_type''"
  "lower ''st_spectype'' = ''st_spectype''" "lower ''spectral_type'' = ''spectral_type''"
  "lower ''spec_type'' = ''spec_type''" "lower ''stellar_class'' = ''stellar_class''"
  "lower ''star_class'' = ''star_class''" "lower ''classification'' = ''classification''"
  "lower ''sptype'' = ''sptype''" "lower ''spectype'' = ''spectype''"
  "lower ''st_type'' = ''st_type''" "lower ''host_star_type'' = ''host_star_type''"
  "lower ''host_type'' = ''host_type''"
  by code_simp+

lemma lower_planet_radius:
  "lower ''planet_radius'' = ''planet_radius''" "lower ''pl_rade'' = ''pl_rade''"
  "lower ''radius'' = ''radius''" "lower ''pl_radius'' = ''pl_radius''"
  "lower ''r_planet'' = ''r_planet''" "lower ''planet_r'' = ''planet_r''"
  "lower ''radius_earth'' = ''radius_earth''" "lower ''earth_radius'' = ''earth_radius''"
  "lower ''r_earth'' = ''r_earth''" "lower ''re'' = ''re''"
  "lower ''planet_size'' = ''planet_size''" "lower ''size'' = ''size''"
  "lower ''pl_rad'' = ''pl_rad''" "lower ''radius_e'' = ''radius_e''"
  by code_simp+

lemma lower_orbital_period:
  "lower ''orbital_period'' = ''orbital_period''" "lower ''period'' = ''period''"
  "lower ''pl_orbper'' = ''pl_orbper''" "lower ''orbit_period'' = ''orbit_period''"
  "lower ''period_days'' = ''period_days''"
  "lower ''orbital_period_days'' = ''orbital_period_days''"
  "lower ''pl_period'' = ''pl_period''" "lower ''p'' = ''p''"
  "lower ''orbit_p'' = ''orbit_p''" "lower ''period_d'' = ''period_d''"
  "lower ''days'' = ''days''" "lower ''pl_orbperdur1'' = ''pl_orbperdur1''"
  by code_simp+

lemma lower_stellar_mass:
  "lower ''stellar_mass'' = ''stellar_mass''" "lower ''star_mass'' = ''star_mass''"
  "lower ''st_mass'' = ''st_mass''" "lower ''host_mass'' = ''host_mass''"
  "lower ''host_star_mass'' = ''host_star_mass''" "lower ''m_star'' = ''m_star''"
  "lower ''mass_star'' = ''mass_star''" "lower ''stellar_m'' = ''stellar_m''"
  "lower ''st_m'' = ''st_m''" "lower ''ms'' = ''ms''"
  "lower ''mass_stellar'' = ''mass_stellar''" "lower ''host_m'' = ''host_m''"
  by code_simp+

lemma lower_planet_mass:
  "lower ''planet_mass'' = ''planet_mass''" "lower ''pl_masse'' = ''pl_masse''"
  "lower ''mass'' = ''mass''" "lower ''pl_mass'' = ''pl_mass''"
  "lower ''m_planet'' = ''m_planet''" "lower ''planet_m'' = ''planet_m''"
  "lower ''mass_earth'' = ''mass_earth''" "lower ''earth_mass'' = ''earth_mass''"
  "lower ''m_earth'' = ''m_earth''" "lower ''me'' = ''me''" "lower ''pl_m'' = ''pl_m''"
  "lower ''mass_e'' = ''mass_e''" "lower ''planet_masse'' = ''planet_masse''"
  by code_simp+

lemma lower_temperature:
  "lower ''temperature'' = ''temperature''" "lower ''temp'' = ''temp''"
  "lower ''pl_eqt'' = ''pl_eqt''"
  "lower ''equilibrium_temperature'' = ''equilibrium_temperature''"
  "lower ''eq_temp'' = ''eq_temp''" "lower ''teq'' = ''teq''" "lower ''t_eq'' = ''t_eq''"
  "lower ''planet_temp'' = ''planet_temp''" "lower ''pl_temp'' = ''pl_temp''"
  "lower ''effective_temperature'' = ''effective_temperature''"
  "lower ''t_eff'' = ''t_eff''" "lower ''temp_eq'' = ''temp_eq''"
  "lower ''kelvin'' = ''kelvin''"
  by code_simp+

lemma lower_discovery_year:
  "lower ''discovery_year'' = ''discovery_year''" "lower ''disc_year'' = ''disc_year''"
  "lower ''year'' = ''year''" "lower ''discovery_date'' = ''discovery_date''"
  "lower ''found_year'' = ''found_year''" "lower ''detected_year'' = ''detected_year''"
  "lower ''publication_year'' = ''publication_year''"
  "lower ''announce_year'' = ''announce_year''"
  "lower ''year_discovered'' = ''year_discovered''" "lower ''yr'' = ''yr''"
  by code_simp+

lemma lower_detection_method:
  "lower ''detection_method'' = ''detection_method''"
  "lower ''discovery_method'' = ''discovery_method''" "lower ''method'' = ''method''"
  "lower ''discoverymethod'' = ''discoverymethod''"
  "lower ''detection_technique'' = ''detection_technique''"
  "lower ''discovery_technique'' = ''discovery_technique''"
  "lower ''technique'' = ''technique''" "lower ''method_detection'' = ''method_detection''"
  "lower ''detect_method'' = ''detect_method''" "lower ''disc_method'' = ''disc_method''"
  by code_simp+

lemma lower_data_quality:
  "lower ''data_quality'' = ''data_quality''" "lower ''quality'' = ''quality''"
  "lower ''data_flag'' = ''data_flag''" "lower ''flag'' = ''flag''"
  "lower ''reliability'' = ''reliability''" "lower ''confidence'' = ''confidence''"
  "lower ''quality_flag'' = ''quality_flag''" "lower ''grade'' = ''grade''"
  "lower ''rating'' = ''rating''" "lower ''status'' = ''status''"
  "lower ''validation_status'' = ''validation_status''" "lower ''verified'' = ''verified''"
  by code_simp+

lemma map_lower_name: "map lower name_synonyms = name_synonyms"
  by (simp add: name_synonyms_def lower_name)

lemma map_lower_distance: "map lower distance_synonyms = distance_synonyms"
  by (simp add: distance_synonyms_def lower_distance)

lemma map_lower_star_type: "map lower star_type_synonyms = star_type_synonyms"
  by (simp add: star_type_synonyms_def lower_star_type)

lemma map_lower_planet_radius: "map lower planet_radius_synonyms = planet_radius_synonyms"
  by (simp add: planet_radius_synonyms_def lower_planet_radius)

lemma map_lower_orbital_period: "map lower orbital_period_synonyms = orbital_period_synonyms"
  by (simp add: orbital_period_synonyms_def lower_orbital_period)

lemma map_lower_stellar_mass: "map lower stellar_mass_synonyms = stellar_mass_synonyms"
  by (simp add: stellar_mass_synonyms_def lower_stellar_mass)

lemma map_lower_planet_mass: "map lower planet_mass_synonyms = planet_mass_synonyms"
  by (simp add: planet_mass_synonyms_def lower_planet_mass)

lemma map_lower_temperature: "map lower temperature_synonyms = temperature_synonyms"
  by (simp add: temperature_synonyms_def lower_temperature)

lemma map_lower_discovery_year: "map lower discovery_year_synonyms = discovery_year_synonyms"
  by (simp add: discovery_year_synonyms_def lower_discovery_year)

lemma map_lower_detection_method: "map lower detection_method_synonyms = detection_method_synonyms"
  by (simp add: detection_method_synonyms_def lower_detection_method)

lemma map_lower_data_quality: "map lower data_quality_synonyms = data_quality_synonyms"
  by (simp add: data_quality_synonyms_def lower_data_quality)

lemma signature_headers:
  "signature ''pl_name'' =
     [''name'', ''pl_name'', ''pl_name'', ''pl_name'', ''pl_name'', ''pl_name'', ''pl_name'',
      ''pl_name'', ''pl_name'']"
  "signature ''sy_dist'' =
     [''sy_dist'', ''sy_dist'', ''sy_dist'', ''dist'', ''sy_dist'', ''sy_dist'', ''sy_dist'',
      ''syist'', ''sy_dist'']"
  "signature ''st_spectype'' =
     [''st_spectype'', ''spectype'', ''spectype'', ''st_spectype'', ''st_spectype'',
      ''st_spectype'', ''st_spectype'', ''st_spectype'', ''st_spectype'']"
  "signature ''pl_rade'' =
     [''rade'', ''pl_rade'', ''pl_rade'', ''pl_rade'', ''pl_rade'', ''pl_rade'', ''pl_rade'',
      ''pl_rade'', ''pl_rade'']"
  "signature ''pl_orbper'' =
     [''orbper'', ''pl_orbper'', ''pl_orbper'', ''pl_orbper'', ''pl_orbper'', ''pl_orbper'',
      ''pl_orbper'', ''pl_orbper'', ''pl_orbper'']"
  "signature ''st_mass'' =
     [''st_mass'', ''mass'', ''mass'', ''st_mass'', ''st_mass'', ''st_mass'', ''st_mass'',
      ''st_mass'', ''st_mass'']"
  "signature ''foo'' =
     [''foo'', ''foo'', ''foo'', ''foo'', ''foo'', ''foo'', ''foo'', ''foo'', ''foo'']"
  "signature ''bar'' =
     [''bar'', ''bar'', ''bar'', ''bar'', ''bar'', ''bar'', ''bar'', ''bar'', ''bar'']"
  by code_simp+

lemma signature_name:
  "signature ''name'' =
     [''name'', ''name'', ''name'', ''name'', ''name'', ''name'', ''name'', ''name'', ''name'']"
  "signature ''planet_name'' =
     [''name'', ''planet_name'', ''planet_name'', ''planet_name'', ''planet_name'',
      ''planet_name'', ''planet_name'', ''planet_name'', ''planet_name'']"
  "signature ''pl_name'' =
     [''name'', ''pl_name'', ''pl_name'', ''pl_name'', ''pl_name'', ''pl_name'', ''pl_name'',
      ''pl_name'', ''pl_name'']"
  "signature ''target_name'' =
     [''target_name'', ''target_name'', ''target_name'', ''target_name'', ''target_name'',
      ''target_name'', ''target_name'', ''target_name'', ''target_name'']"
  "signature ''object_name'' =
     [''object_name'', ''object_name'', ''object_name'', ''object_name'', ''object_name'',
      ''object_name'', ''object_name'', ''object_name'', ''object_name'']"
  "signature ''identifier'' =
     [''identifier'', ''identifier'', ''identifier'', ''identifier'', ''identifier'',
      ''identifier'', ''identifier'', ''identifier'', ''identifier'']"
  "signature ''designation'' =
     [''designation'', ''designation'', ''designation'', ''designation'', ''designation'',
      ''designation'', ''designation'', ''designation'', ''designation'']"
  "signature ''common_name'' =
     [''common_name'', ''common_name'', ''common_name'', ''common_name'', ''common_name'',
      ''common_name'', ''common_name'', ''common_name'', ''common_name'']"
  "signature ''planet'' =
     [''planet'', ''planet'', ''planet'', ''planet'', ''planet'', ''planet'', ''planet'',
      ''planet'', ''planet'']"
  "signature ''target'' =
     [''target'', ''target'', ''target'', ''target'', ''target'', ''target'', ''target'',
      ''target'', ''target'']"
  "signature ''object'' =
     [''object'', ''object'', ''object'', ''object'', ''object'', ''object'', ''object'',
      ''object'', ''object'']"
  "signature ''source_name'' =
     [''source_name'', ''source_name'', ''source_name'', ''source_name'', ''source_name'',
      ''source_name'', ''source_name'', ''source_name'', ''source_name'']"
  "signature ''catalogue_name'' =
     [''catalogue_name'', ''catalogue_name'', ''catalogue_name'', ''catalogue_name'',
      ''catalogue_name'', ''catalogue_name'', ''catalogue_name'', ''catalogue_name'',
      ''catalogue_name'']"
  "signature ''exoplanet_name'' =
     [''exoname'', ''exoplanet_name'', ''exoplanet_name'', ''exoplanet_name'',
      ''exoplanet_name'', ''exoplanet_name'', ''exoplanet_name'', ''exoplanet_name'',
      ''exoplanet_name'']"
  by code_simp+

lemma signature_distance:
  "signature ''distance'' =
     [''distance'', ''distance'', ''distance'', ''distance'', ''distance'', ''distance'',
      ''distance'', ''distance'', ''distance'']"
  "signature ''dist'' =
     [''dist'', ''dist'', ''dist'', ''dist'', ''dist'', ''dist'', ''dist'', ''dist'', ''dist'']"
  "signature ''sy_dist'' =
     [''sy_dist'', ''sy_dist'', ''sy_dist'', ''dist'', ''sy_dist'', ''sy_dist'', ''sy_dist'',
      ''syist'', ''sy_dist'']"
  "signature ''distance_pc'' =
     [''distance_pc'', ''distance_pc'', ''distance_pc'', ''distance_pc'', ''distance'',
      ''distance_pc'', ''distance_pc'', ''distance_pc'', ''distance_pc'']"
  "signature ''dist_pc'' =
     [''dist_pc'', ''dipc'', ''dipc'', ''dist_pc'', ''dist'', ''dist_pc'', ''dist_pc'',
      ''dist_pc'', ''dist_pc'']"
  "signature ''parallax_distance'' =
     [''parallax_distance'', ''parallax_distance'', ''parallax_distance'',
      ''parallax_distance'', ''parallax_distance'', ''parallax_distance'',
      ''parallax_distance'', ''parallaxistance'', ''parallax_distance'']"
  "signature ''stellar_distance'' =
     [''stellar_distance'', ''stellar_distance'', ''distance'', ''stellar_distance'',
      ''stellar_distance'', ''stellar_distance'', ''stellar_distance'', ''stellaristance'',
      ''stellar_distance'']"
  "signature ''star_distance'' =
     [''star_distance'', ''distance'', ''star_distance'', ''star_distance'', ''star_distance'',
      ''star_distance'', ''star_distance'', ''staristance'', ''star_distance'']"
  "signature ''system_distance'' =
     [''system_distance'', ''system_distance'', ''system_distance'', ''distance'',
      ''system_distance'', ''system_distance'', ''system_distance'', ''systemistance'',
      ''system_distance'']"
  "signature ''parsecs'' =
     [''parsecs'', ''parsecs'', ''parsecs'', ''parsecs'', ''parsecs'', ''parsecs'',
      ''parsecs'', ''parsecs'', ''parsecs'']"
  "signature ''pc'' =
     [''pc'', ''pc'', ''pc'', ''pc'', ''pc'', ''pc'', ''pc'', ''pc'', ''pc'']"
  "signature ''d'' =
     [''d'', ''d'', ''d'', ''d'', ''d'', ''d'', ''d'', ''d'', ''d'']"
  "signature ''dist_parsec'' =
     [''dist_parsec'', ''diparsec'', ''diparsec'', ''dist_parsec'', ''dist'', ''dist_parsec'',
      ''dist_parsec'', ''dist_parsec'', ''dist_parsec'']"
  by code_simp+

lemma signature_star_type:
  "signature ''star_type'' =
     [''star_type'', ''type'', ''star_type'', ''star_type'', ''star_type'', ''star_type'',
      ''star_type'', ''star_type'', ''star_type'']"
  "signature ''stellar_type'' =
     [''stellar_type'', ''stellar_type'', ''type'', ''stellar_type'', ''stellar_type'',
      ''stellar_type'', ''stellar_type'', ''stellar_type'', ''stellar_type'']"
  "signature ''st_spectype'' =
     [''st_spectype'', ''spectype'', ''spectype'', ''st_spectype'', ''st_spectype'',
      ''st_spectype'', ''st_spectype'', ''st_spectype'', ''st_spectype'']"
  "signature ''spectral_type'' =
     [''spectral_type'', ''spectral_type'', ''spectral_type'', ''spectral_type'',
      ''spectral_type'', ''spectral_type'', ''spectral_type'', ''spectral_type'',
      ''spectral_type'']"
  "signature ''spec_type'' =
     [''spec_type'', ''spec_type'', ''spec_type'', ''spec_type'', ''spec_type'', ''spec_type'',
      ''spec_type'', ''spec_type'', ''spec_type'']"
  "signature ''stellar_class'' =
     [''stellar_class'', ''stellar_class'', ''class'', ''stellar_class'', ''stellar_class'',
      ''stellar_class'', ''stellar_class'', ''stellar_class'', ''stellar_class'']"
  "signature ''star_class'' =
     [''star_class'', ''class'', ''star_class'', ''star_class'', ''star_class'',
      ''star_class'', ''star_class'', ''star_class'', ''star_class'']"
  "signature ''classification'' =
     [''classification'', ''classification'', ''classification'', ''classification'',
      ''classification'', ''classification'', ''classification'', ''classification'',
      ''classification'']"
  "signature ''sptype'' =
     [''sptype'', ''sptype'', ''sptype'', ''sptype'', ''sptype'', ''sptype'', ''sptype'',
      ''sptype'', ''sptype'']"
  "signature ''spectype'' =
     [''spectype'', ''spectype'', ''spectype'', ''spectype'', ''spectype'', ''spectype'',
      ''spectype'', ''spectype'', ''spectype'']"
  "signature ''st_type'' =
     [''st_type'', ''type'', ''type'', ''st_type'', ''st_type'', ''st_type'', ''st_type'',
      ''st_type'', ''st_type'']"
  "signature ''host_star_type'' =
     [''host_star_type'', ''hotype'', ''hostar_type'', ''host_star_type'', ''host_star_type'',
      ''host_star_type'', ''host_star_type'', ''host_star_type'', ''host_star_type'']"
  "signature ''host_type'' =
     [''host_type'', ''hotype'', ''hotype'', ''host_type'', ''host_type'', ''host_type'',
      ''host_type'', ''host_type'', ''host_type'']"
  by code_simp+

lemma signature_planet_radius:
  "signature ''planet_radius'' =
     [''radius'', ''planet_radius'', ''planet_radius'', ''planet_radius'', ''planet_radius'',
      ''planet_radius'', ''planet_radius'', ''planet_radius'', ''planet_radius'']"
  "signature ''pl_rade'' =
     [''rade'', ''pl_rade'', ''pl_rade'', ''pl_rade'', ''pl_rade'', ''pl_rade'', ''pl_rade'',
      ''pl_rade'', ''pl_rade'']"
  "signature ''radius'' =
     [''radius'', ''radius'', ''radius'', ''radius'', ''radius'', ''radius'', ''radius'',
      ''radius'', ''radius'']"
  "signature ''pl_radius'' =
     [''radius'', ''pl_radius'', ''pl_radius'', ''pl_radius'', ''pl_radius'', ''pl_radius'',
      ''pl_radius'', ''pl_radius'', ''pl_radius'']"
  "signature ''r_planet'' =
     [''r_planet'', ''r_planet'', ''r_planet'', ''r_planet'', ''r_planet'', ''r_planet'',
      ''r_planet'', ''r_planet'', ''r_planet'']"
  "signature ''planet_r'' =
     [''r'', ''planet_r'', ''planet_r'', ''planet_r'', ''planet_r'', ''planet_r'',
      ''planet_r'', ''planet_r'', ''planet_r'']"
  "signature ''radius_earth'' =
     [''radius_earth'', ''radius_earth'', ''radius_earth'', ''radius_earth'', ''radius_earth'',
      ''radiusarth'', ''radius_earth'', ''radius_earth'', ''radius_earth'']"
  "signature ''earth_radius'' =
     [''earth_radius'', ''earth_radius'', ''earth_radius'', ''earth_radius'', ''earth_radius'',
      ''earth_radius'', ''earth_radius'', ''earth_radius'', ''earth_radius'']"
  "signature ''r_earth'' =
     [''r_earth'', ''r_earth'', ''r_earth'', ''r_earth'', ''r_earth'', ''rarth'', ''r_earth'',
      ''r_earth'', ''r_earth'']"
  "signature ''re'' =
     [''re'', ''re'', ''re'', ''re'', ''re'', ''re'', ''re'', ''re'', ''re'']"
  "signature ''planet_size'' =
     [''size'', ''planet_size'', ''planet_size'', ''planet_size'', ''planet_size'',
      ''planet_size'', ''planet_size'', ''planet_size'', ''planet_size'']"
  "signature ''size'' =
     [''size'', ''size'', ''size'', ''size'', ''size'', ''size'', ''size'', ''size'', ''size'']"
  "signature ''pl_rad'' =
     [''rad'', ''pl_rad'', ''pl_rad'', ''pl_rad'', ''pl_rad'', ''pl_rad'', ''pl_rad'',
      ''pl_rad'', ''pl_rad'']"
  "signature ''radius_e'' =
     [''radius_e'', ''radius_e'', ''radius_e'', ''radius_e'', ''radius_e'', ''radius'',
      ''radius_e'', ''radius_e'', ''radius_e'']"
  by code_simp+

lemma signature_orbital_period:
  "signature ''orbital_period'' =
     [''orbital_period'', ''orbital_period'', ''orbital_period'', ''orbital_period'',
      ''orbital_period'', ''orbital_period'', ''orbital_period'', ''orbital_period'',
      ''orbital_period'']"
  "signature ''period'' =
     [''period'', ''period'', ''period'', ''period'', ''period'', ''period'', ''period'',
      ''period'', ''period'']"
  "signature ''pl_orbper'' =
     [''orbper'', ''pl_orbper'', ''pl_orbper'', ''pl_orbper'', ''pl_orbper'', ''pl_orbper'',
      ''pl_orbper'', ''pl_orbper'', ''pl_orbper'']"
  "signature ''orbit_period'' =
     [''orbit_period'', ''orbit_period'', ''orbit_period'', ''orbit_period'', ''orbit_period'',
      ''orbit_period'', ''orbit_period'', ''orbit_period'', ''orbit_period'']"
  "signature ''period_days'' =
     [''period_days'', ''period_days'', ''period_days'', ''period_days'', ''period_days'',
      ''period_days'', ''period_days'', ''periodays'', ''period_days'']"
  "signature ''orbital_period_days'' =
     [''orbital_period_days'', ''orbital_period_days'', ''orbital_period_days'',
      ''orbital_period_days'', ''orbital_period_days'', ''orbital_period_days'',
      ''orbital_period_days'', ''orbital_periodays'', ''orbital_period_days'']"
  "signature ''pl_period'' =
     [''period'', ''pl_period'', ''pl_period'', ''pl_period'', ''pl_period'', ''pl_period'',
      ''pl_period'', ''pl_period'', ''pl_period'']"
  "signature ''p'' =
     [''p'', ''p'', ''p'', ''p'', ''p'', ''p'', ''p'', ''p'', ''p'']"
  "signature ''orbit_p'' =
     [''orbit_p'', ''orbit_p'', ''orbit_p'', ''orbit_p'', ''orbit_p'', ''orbit_p'',
      ''orbit_p'', ''orbit_p'', ''orbit_p'']"
  "signature ''period_d'' =
     [''period_d'', ''period_d'', ''period_d'', ''period_d'', ''period_d'', ''period_d'',
      ''period_d'', ''period'', ''period_d'']"
  "signature ''days'' =
     [''days'', ''days'', ''days'', ''days'', ''days'', ''days'', ''days'', ''days'', ''days'']"
  "signature ''pl_orbperdur1'' =
     [''orbperdur1'', ''pl_orbperdur1'', ''pl_orbperdur1'', ''pl_orbperdur1'',
      ''pl_orbperdur1'', ''pl_orbperdur1'', ''pl_orbperdur1'', ''pl_orbperdur1'',
      ''pl_orbperdur1'']"
  by code_simp+

lemma signature_stellar_mass:
  "signature ''stellar_mass'' =
     [''stellar_mass'', ''stellar_mass'', ''mass'', ''stellar_mass'', ''stellar_mass'',
      ''stellar_mass'', ''stellar_mass'', ''stellar_mass'', ''stellar_mass'']"
  "signature ''star_mass'' =
     [''star_mass'', ''mass'', ''star_mass'', ''star_mass'', ''star_mass'', ''star_mass'',
      ''star_mass'', ''star_mass'', ''star_mass'']"
  "signature ''st_mass'' =
     [''st_mass'', ''mass'', ''mass'', ''st_mass'', ''st_mass'', ''st_mass'', ''st_mass'',
      ''st_mass'', ''st_mass'']"
  "signature ''host_mass'' =
     [''host_mass'', ''homass'', ''homass'', ''host_mass'', ''host_mass'', ''host_mass'',
      ''host_mass'', ''host_mass'', ''host_mass'']"
  "signature ''host_star_mass'' =
     [''host_star_mass'', ''homass'', ''hostar_mass'', ''host_star_mass'', ''host_star_mass'',
      ''host_star_mass'', ''host_star_mass'', ''host_star_mass'', ''host_star_mass'']"
  "signature ''m_star'' =
     [''m_star'', ''m_star'', ''m_star'', ''m_star'', ''m_star'', ''m_star'', ''m_star'',
      ''m_star'', ''m_star'']"
  "signature ''mass_star'' =
     [''mass_star'', ''mass_star'', ''mass_star'', ''mass_star'', ''mass_star'', ''mass_star'',
      ''mass_star'', ''mass_star'', ''mass_star'']"
  "signature ''stellar_m'' =
     [''stellar_m'', ''stellar_m'', ''m'', ''stellar_m'', ''stellar_m'', ''stellar_m'',
      ''stellar_m'', ''stellar_m'', ''stellar_m'']"
  "signature ''st_m'' =
     [''st_m'', ''m'', ''m'', ''st_m'', ''st_m'', ''st_m'', ''st_m'', ''st_m'', ''st_m'']"
  "signature ''ms'' =
     [''ms'', ''ms'', ''ms'', ''ms'', ''ms'', ''ms'', ''ms'', ''ms'', ''ms'']"
  "signature ''mass_stellar'' =
     [''mass_stellar'', ''mass_stellar'', ''mass_stellar'', ''mass_stellar'', ''mass_stellar'',
      ''mass_stellar'', ''mass_stellar'', ''mass_stellar'', ''mass_stellar'']"
  "signature ''host_m'' =
     [''host_m'', ''hom'', ''hom'', ''host_m'', ''host_m'', ''host_m'', ''host_m'', ''host_m'',
      ''host_m'']"
  by code_simp+

lemma signature_planet_mass:
  "signature ''planet_mass'' =
     [''mass'', ''planet_mass'', ''planet_mass'', ''planet_mass'', ''planet_mass'',
      ''planet_mass'', ''planet_mass'', ''planet_mass'', ''planet_mass'']"
  "signature ''pl_masse'' =
     [''masse'', ''pl_masse'', ''pl_masse'', ''pl_masse'', ''pl_masse'', ''pl_masse'',
      ''pl_masse'', ''pl_masse'', ''pl_masse'']"
  "signature ''mass'' =
     [''mass'', ''mass'', ''mass'', ''mass'', ''mass'', ''mass'', ''mass'', ''mass'', ''mass'']"
  "signature ''pl_mass'' =
     [''mass'', ''pl_mass'', ''pl_mass'', ''pl_mass'', ''pl_mass'', ''pl_mass'', ''pl_mass'',
      ''pl_mass'', ''pl_mass'']"
  "signature ''m_planet'' =
     [''m_planet'', ''m_planet'', ''m_planet'', ''m_planet'', ''m_planet'', ''m_planet'',
      ''m_planet'', ''m_planet'', ''m_planet'']"
  "signature ''planet_m'' =
     [''m'', ''planet_m'', ''planet_m'', ''planet_m'', ''planet_m'', ''planet_m'',
      ''planet_m'', ''planet_m'', ''planet_m'']"
  "signature ''mass_earth'' =
     [''mass_earth'', ''mass_earth'', ''mass_earth'', ''mass_earth'', ''mass_earth'',
      ''massarth'', ''mass_earth'', ''mass_earth'', ''mass_earth'']"
  "signature ''earth_mass'' =
     [''earth_mass'', ''earth_mass'', ''earth_mass'', ''earth_mass'', ''earth_mass'',
      ''earth_mass'', ''earth_mass'', ''earth_mass'', ''earth_mass'']"
  "signature ''m_earth'' =
     [''m_earth'', ''m_earth'', ''m_earth'', ''m_earth'', ''m_earth'', ''marth'', ''m_earth'',
      ''m_earth'', ''m_earth'']"
  "signature ''me'' =
     [''me'', ''me'', ''me'', ''me'', ''me'', ''me'', ''me'', ''me'', ''me'']"
  "signature ''pl_m'' =
     [''m'', ''pl_m'', ''pl_m'', ''pl_m'', ''pl_m'', ''pl_m'', ''pl_m'', ''pl_m'', ''pl_m'']"
  "signature ''mass_e'' =
     [''mass_e'', ''mass_e'', ''mass_e'', ''mass_e'', ''mass_e'', ''mass'', ''mass_e'',
      ''mass_e'', ''mass_e'']"
  "signature ''planet_masse'' =
     [''masse'', ''planet_masse'', ''planet_masse'', ''planet_masse'', ''planet_masse'',
      ''planet_masse'', ''planet_masse'', ''planet_masse'', ''planet_masse'']"
  by code_simp+

lemma signature_temperature:
  "signature ''temperature'' =
     [''temperature'', ''temperature'', ''temperature'', ''temperature'', ''temperature'',
      ''temperature'', ''temperature'', ''temperature'', ''temperature'']"
  "signature ''temp'' =
     [''temp'', ''temp'', ''temp'', ''temp'', ''temp'', ''temp'', ''temp'', ''temp'', ''temp'']"
  "signature ''pl_eqt'' =
     [''eqt'', ''pl_eqt'', ''pl_eqt'', ''pl_eqt'', ''pl_eqt'', ''plqt'', ''pl_eqt'',
      ''pl_eqt'', ''pl_eqt'']"
  "signature ''equilibrium_temperature'' =
     [''equilibrium_temperature'', ''equilibrium_temperature'', ''equilibrium_temperature'',
      ''equilibrium_temperature'', ''equilibrium_temperature'', ''equilibrium_temperature'',
      ''equilibrium_temperature'', ''equilibrium_temperature'', ''equilibrium_temperature'']"
  "signature ''eq_temp'' =
     [''eq_temp'', ''eq_temp'', ''eq_temp'', ''eq_temp'', ''eq_temp'', ''eq_temp'',
      ''eq_temp'', ''eq_temp'', ''eq_temp'']"
  "signature ''teq'' =
     [''teq'', ''teq'', ''teq'', ''teq'', ''teq'', ''teq'', ''teq'', ''teq'', ''teq'']"
  "signature ''t_eq'' =
     [''t_eq'', ''t_eq'', ''t_eq'', ''t_eq'', ''t_eq'', ''tq'', ''t_eq'', ''t_eq'', ''t_eq'']"
  "signature ''planet_temp'' =
     [''temp'', ''planet_temp'', ''planet_temp'', ''planet_temp'', ''planet_temp'',
      ''planet_temp'', ''planet_temp'', ''planet_temp'', ''planet_temp'']"
  "signature ''pl_temp'' =
     [''temp'', ''pl_temp'', ''pl_temp'', ''pl_temp'', ''pl_temp'', ''pl_temp'', ''pl_temp'',
      ''pl_temp'', ''pl_temp'']"
  "signature ''effective_temperature'' =
     [''effective_temperature'', ''effective_temperature'', ''effective_temperature'',
      ''effective_temperature'', ''effective_temperature'', ''effective_temperature'',
      ''effective_temperature'', ''effective_temperature'', ''effective_temperature'']"
  "signature ''t_eff'' =
     [''t_eff'', ''t_eff'', ''t_eff'', ''t_eff'', ''t_eff'', ''tff'', ''t_eff'', ''t_eff'',
      ''t_eff'']"
  "signature ''temp_eq'' =
     [''temp_eq'', ''temp_eq'', ''temp_eq'', ''temp_eq'', ''temp_eq'', ''tempq'', ''temp_eq'',
      ''temp_eq'', ''temp_eq'']"
  "signature ''kelvin'' =
     [''kelvin'', ''kelvin'', ''kelvin'', ''kelvin'', ''kelvin'', ''kelvin'', ''kelvin'',
      ''kelvin'', ''kelvin'']"
  by code_simp+

lemma signature_discovery_year:
  "signature ''discovery_year'' =
     [''discovery_year'', ''discovery_year'', ''discovery_year'', ''discovery_year'',
      ''discovery_year'', ''discovery_year'', ''discovery_year'', ''discovery_year'',
      ''discovery'']"
  "signature ''disc_year'' =
     [''disc_year'', ''disc_year'', ''disc_year'', ''disc_year'', ''disc_year'', ''disc_year'',
      ''disc_year'', ''disc_year'', ''disc'']"
  "signature ''year'' =
     [''year'', ''year'', ''year'', ''year'', ''year'', ''year'', ''year'', ''year'', ''year'']"
  "signature ''discovery_date'' =
     [''discovery_date'', ''discovery_date'', ''discovery_date'', ''discovery_date'',
      ''discovery_date'', ''discovery_date'', ''discovery_date'', ''discoveryate'',
      ''discovery_date'']"
  "signature ''found_year'' =
     [''found_year'', ''found_year'', ''found_year'', ''found_year'', ''found_year'',
      ''found_year'', ''found_year'', ''found_year'', ''found'']"
  "signature ''detected_year'' =
     [''detected_year'', ''detected_year'', ''detected_year'', ''detected_year'',
      ''detected_year'', ''detected_year'', ''detected_year'', ''detected_year'', ''detected'']"
  "signature ''publication_year'' =
     [''publication_year'', ''publication_year'', ''publication_year'', ''publication_year'',
      ''publication_year'', ''publication_year'', ''publication_year'', ''publication_year'',
      ''publication'']"
  "signature ''announce_year'' =
     [''announce_year'', ''announce_year'', ''announce_year'', ''announce_year'',
      ''announce_year'', ''announce_year'', ''announce_year'', ''announce_year'', ''announce'']"
  "signature ''year_discovered'' =
     [''year_discovered'', ''year_discovered'', ''year_discovered'', ''year_discovered'',
      ''year_discovered'', ''year_discovered'', ''year_discovered'', ''yeariscovered'',
      ''year_discovered'']"
  "signature ''yr'' =
     [''yr'', ''yr'', ''yr'', ''yr'', ''yr'', ''yr'', ''yr'', ''yr'', ''yr'']"
  by code_simp+

lemma signature_detection_method:
  "signature ''detection_method'' =
     [''detection_method'', ''detection_method'', ''detection_method'', ''detection_method'',
      ''detection_method'', ''detection_method'', ''detection_method'', ''detection_method'',
      ''detection_method'']"
  "signature ''discovery_method'' =
     [''discovery_method'', ''discovery_method'', ''discovery_method'', ''discovery_method'',
      ''discovery_method'', ''discovery_method'', ''discovery_method'', ''discovery_method'',
      ''discovery_method'']"
  "signature ''method'' =
     [''method'', ''method'', ''method'', ''method'', ''method'', ''method'', ''method'',
      ''method'', ''method'']"
  "signature ''discoverymethod'' =
     [''discoverymethod'', ''discoverymethod'', ''discoverymethod'', ''discoverymethod'',
      ''discoverymethod'', ''discoverymethod'', ''discoverymethod'', ''discoverymethod'',
      ''discoverymethod'']"
  "signature ''detection_technique'' =
     [''detection_technique'', ''detection_technique'', ''detection_technique'',
      ''detection_technique'', ''detection_technique'', ''detection_technique'',
      ''detection_technique'', ''detection_technique'', ''detection_technique'']"
  "signature ''discovery_technique'' =
     [''discovery_technique'', ''discovery_technique'', ''discovery_technique'',
      ''discovery_technique'', ''discovery_technique'', ''discovery_technique'',
      ''discovery_technique'', ''discovery_technique'', ''discovery_technique'']"
  "signature ''technique'' =
     [''technique'', ''technique'', ''technique'', ''technique'', ''technique'', ''technique'',
      ''technique'', ''technique'', ''technique'']"
  "signature ''method_detection'' =
     [''method_detection'', ''method_detection'', ''method_detection'', ''method_detection'',
      ''method_detection'', ''method_detection'', ''method_detection'', ''methodetection'',
      ''method_detection'']"
  "signature ''detect_method'' =
     [''detect_method'', ''detect_method'', ''detect_method'', ''detect_method'',
      ''detect_method'', ''detect_method'', ''detect_method'', ''detect_method'',
      ''detect_method'']"
  "signature ''disc_method'' =
     [''disc_method'', ''disc_method'', ''disc_method'', ''disc_method'', ''disc_method'',
      ''disc_method'', ''disc_method'', ''disc_method'', ''disc_method'']"
  by code_simp+

lemma signature_data_quality:
  "signature ''data_quality'' =
     [''data_quality'', ''data_quality'', ''data_quality'', ''data_quality'', ''data_quality'',
      ''data_quality'', ''data_quality'', ''data_quality'', ''data_quality'']"
  "signature ''quality'' =
     [''quality'', ''quality'', ''quality'', ''quality'', ''quality'', ''quality'',
      ''quality'', ''quality'', ''quality'']"
  "signature ''data_flag'' =
     [''data_flag'', ''data_flag'', ''data_flag'', ''data_flag'', ''data_flag'', ''data_flag'',
      ''data_flag'', ''data_flag'', ''data_flag'']"
  "signature ''flag'' =
     [''flag'', ''flag'', ''flag'', ''flag'', ''flag'', ''flag'', ''flag'', ''flag'', ''flag'']"
  "signature ''reliability'' =
     [''reliability'', ''reliability'', ''reliability'', ''reliability'', ''reliability'',
      ''reliability'', ''reliability'', ''reliability'', ''reliability'']"
  "signature ''confidence'' =
     [''confidence'', ''confidence'', ''confidence'', ''confidence'', ''confidence'',
      ''confidence'', ''confidence'', ''confidence'', ''confidence'']"
  "signature ''quality_flag'' =
     [''quality_flag'', ''quality_flag'', ''quality_flag'', ''quality_flag'', ''quality_flag'',
      ''quality_flag'', ''quality_flag'', ''quality_flag'', ''quality_flag'']"
  "signature ''grade'' =
     [''grade'', ''grade'', ''grade'', ''grade'', ''grade'', ''grade'', ''grade'', ''grade'',
      ''grade'']"
  "signature ''rating'' =
     [''rating'', ''rating'', ''rating'', ''rating'', ''rating'', ''rating'', ''rating'',
      ''rating'', ''rating'']"
  "signature ''status'' =
     [''status'', ''status'', ''status'', ''status'', ''status'', ''status'', ''status'',
      ''status'', ''status'']"
  "signature ''validation_status'' =
     [''validation_status'', ''validation_status'', ''validation_status'',
      ''validation_status'', ''validation_status'', ''validation_status'',
      ''validation_status'', ''validation_status'', ''validation_status'']"
  "signature ''verified'' =
     [''verified'', ''verified'', ''verified'', ''verified'', ''verified'', ''verified'',
      ''verified'', ''verified'', ''verified'']"
  by code_simp+

text \<open>The NASA header row: normal forms, exact matches and the scans of the optional fields.\<close>

lemma nasa_pairs_eq: "zip nasa_headers (map normalize_header nasa_headers) = nasa_pairs"
  unfolding nasa_pairs_def nasa_headers_def by code_simp

lemma exact_name: "fst (scan_headers name_synonyms nasa_pairs (None, 0)) = Some ''pl_name''"
  by (simp add: scan_headers_exact nasa_pairs_def map_lower_name) (simp add: name_synonyms_def)

lemma exact_distance: "fst (scan_headers distance_synonyms nasa_pairs (None, 0)) = Some ''sy_dist''"
  by (simp add: scan_headers_exact nasa_pairs_def map_lower_distance) (simp add: distance_synonyms_def)

lemma exact_star_type: "fst (scan_headers star_type_synonyms nasa_pairs (None, 0)) = Some ''st_spectype''"
  by (simp add: scan_headers_exact nasa_pairs_def map_lower_star_type) (simp add: star_type_synonyms_def)

lemma exact_planet_radius: "fst (scan_headers planet_radius_synonyms nasa_pairs (None, 0)) = Some ''pl_rade''"
  by (simp add: scan_headers_exact nasa_pairs_def map_lower_planet_radius) (simp add: planet_radius_synonyms_def)

lemma exact_orbital_period: "fst (scan_headers orbital_period_synonyms nasa_pairs (None, 0)) = Some ''pl_orbper''"
  by (simp add: scan_headers_exact nasa_pairs_def map_lower_orbital_period) (simp add: orbital_period_synonyms_def)

lemma exact_stellar_mass: "fst (scan_headers stellar_mass_synonyms nasa_pairs (None, 0)) = Some ''st_mass''"
  by (simp add: scan_headers_exact nasa_pairs_def map_lower_stellar_mass) (simp add: stellar_mass_synonyms_def)

lemma scan_planet_mass: "scan_headers planet_mass_synonyms nasa_pairs (None, 0) = (None, (Some ''st_mass'', 8/10))"
  by (simp add: planet_mass_synonyms_def nasa_pairs_def lower_planet_mass fuzzy_match_sig signature_headers
      signature_planet_mass sig_agree_def similarity_list)

lemma scan_temperature: "scan_headers temperature_synonyms nasa_pairs (None, 0) = (None, (None, 0))"
  by (simp add: temperature_synonyms_def nasa_pairs_def lower_temperature fuzzy_match_sig signature_headers
      signature_temperature sig_agree_def similarity_list)

lemma scan_discovery_year: "scan_headers discovery_year_synonyms nasa_pairs (None, 0) = (None, (None, 0))"
  by (simp add: discovery_year_synonyms_def nasa_pairs_def lower_discovery_year fuzzy_match_sig signature_headers
      signature_discovery_year sig_agree_def similarity_list)

lemma scan_detection_method: "scan_headers detection_method_synonyms nasa_pairs (None, 0) = (None, (None, 0))"
  by (simp add: detection_method_synonyms_def nasa_pairs_def lower_detection_method fuzzy_match_sig signature_headers
      signature_detection_method sig_agree_def similarity_list)

lemma scan_data_quality: "scan_headers data_quality_synonyms nasa_pairs (None, 0) = (None, (None, 0))"
  by (simp add: data_quality_synonyms_def nasa_pairs_def lower_data_quality fuzzy_match_sig signature_headers
      signature_data_quality sig_agree_def similarity_list)

lemma detect_columns_nasa:
  "detect_columns nasa_headers =
     ([(''name'', ''pl_name''), (''distance'', ''sy_dist''), (''star_type'', ''st_spectype''),
       (''planet_radius'', ''pl_rade''), (''orbital_period'', ''pl_orbper''),
       (''stellar_mass'', ''st_mass''), (''planet_mass'', ''st_mass'')],
      [(''name'', 1), (''distance'', 1), (''star_type'', 1), (''planet_radius'', 1),
       (''orbital_period'', 1), (''stellar_mass'', 1), (''planet_mass'', 8/10)])"
  by (simp add: detect_columns_def detect_columns_in_def nasa_pairs_eq COLUMN_MAPPINGS_def
      detect_fields_step exact_name exact_distance exact_star_type exact_planet_radius exact_orbital_period exact_stellar_mass
      scan_planet_mass scan_temperature scan_discovery_year scan_detection_method scan_data_quality
      del: detect_fields.simps(2) scan_headers.simps)

lemma normalize_foo_bar:
  "normalize_header ''foo'' = ''foo''" "normalize_header ''bar'' = ''bar''"
  by code_simp+

lemma unmatched_foo_bar: "unmatched_header ''foo''" "unmatched_header ''bar''"
  by (simp_all add: unmatched_header_def COLUMN_MAPPINGS_def matches_synonym_def
      normalize_foo_bar fuzzy_match_sig signature_headers sig_agree_def similarity_list
      name_synonyms_def lower_name signature_name distance_synonyms_def lower_distance
      signature_distance star_type_synonyms_def lower_star_type signature_star_type
      planet_radius_synonyms_def lower_planet_radius signature_planet_radius
      orbital_period_synonyms_def lower_orbital_period signature_orbital_period
      stellar_mass_synonyms_def lower_stellar_mass signature_stellar_mass
      planet_mass_synonyms_def lower_planet_mass signature_planet_mass
      temperature_synonyms_def lower_temperature signature_temperature
      discovery_year_synonyms_def lower_discovery_year signature_discovery_year
      detection_method_synonyms_def lower_detection_method signature_detection_method
      data_quality_synonyms_def lower_data_quality signature_data_quality)

text \<open>Headers that match nothing leave every field unmapped.\<close>

lemma partial_matches_none:
  "\<forall>p\<in>set names. \<not> matches_synonym h p \<Longrightarrow> partial_matches c h names best = best"
  by (induction names arbitrary: best) (auto simp: matches_synonym_def Let_def)

lemma fuzzy_matches_none:
  "\<forall>p\<in>set names. \<not> matches_synonym h p \<Longrightarrow> fuzzy_matches c h names best = best"
  by (induction names arbitrary: best) (auto simp: matches_synonym_def Let_def)

lemma scan_headers_none:
  "\<forall>(c, h)\<in>set hs. \<forall>p\<in>set names. \<not> matches_synonym h p \<Longrightarrow>
     scan_headers names hs best = (None, best)"
proof (induction hs arbitrary: best)
  case Nil
  show ?case by simp
next
  case (Cons ch hs)
  obtain c h where ch: "ch = (c, h)" by (cases ch)
  from Cons.prems ch have no: "\<forall>p\<in>set names. \<not> matches_synonym h p" by simp
  then have "h \<notin> set (map lower names)" by (auto simp: matches_synonym_def)
  moreover from Cons.prems have "\<forall>(c, h)\<in>set hs. \<forall>p\<in>set names. \<not> matches_synonym h p"
    by simp
  ultimately show ?case
    using Cons.IH no by (simp add: ch partial_matches_none fuzzy_matches_none)
qed

lemma detect_fields_none:
  "\<forall>(f, names)\<in>set table. \<forall>(c, h)\<in>set hs. \<forall>p\<in>set names. \<not> matches_synonym h p \<Longrightarrow>
     detect_fields table hs acc = acc"
proof (induction table arbitrary: acc)
  case Nil
  show ?case by simp
next
  case (Cons fn table)
  obtain f names where fn: "fn = (f, names)" by (cases fn)
  from Cons.prems fn
  have "scan_headers names hs (None, 0) = (None, (None, 0))"
    by (intro scan_headers_none) simp
  moreover from Cons.prems
  have "\<forall>(f, names)\<in>set table. \<forall>(c, h)\<in>set hs. \<forall>p\<in>set names. \<not> matches_synonym h p"
    by simp
  ultimately show ?case using Cons.IH by (simp add: fn)
qed

lemma detect_columns_unmatched:
  assumes "\<forall>h\<in>set headers. unmatched_header h"
  shows "detect_columns headers = ([], [])"
proof -
  have "\<forall>(f, names)\<in>set COLUMN_MAPPINGS.
          \<forall>(c, h)\<in>set (zip headers (map normalize_header headers)).
            \<forall>p\<in>set names. \<not> matches_synonym h p"
  proof (intro ballI, clarify)
    fix f names c h p
    assume fn: "(f, names) \<in> set COLUMN_MAPPINGS"
      and ch: "(c, h) \<in> set (zip headers (map normalize_header headers))"
      and p: "p \<in> set names" and m: "matches_synonym h p"
    from ch have c: "c \<in> set headers" and h: "h = normalize_header c"
      by (auto simp: set_zip)
    from assms c have "unmatched_header c" by blast
    with fn p have "\<not> matches_synonym (normalize_header c) p"
      by (auto simp: unmatched_header_def list_all_iff)
    with m h show False by simp
  qed
  then show ?thesis
    by (simp add: detect_columns_def detect_columns_in_def detect_fields_none)
qed

text \<open>What the validation response reads off the detected mapping.\<close>

lemma validate_detected_mapping:
  "detected_mapping (validate_csv_columns headers) = fst (detect_columns headers)"
  by (simp add: validate_csv_columns_def get_mapping_suggestions_def Let_def split: prod.splits)

lemma validate_mapping_quality:
  "mapping_quality (validate_csv_columns headers) =
     real (length (fst (detect_columns headers))) / 11"
  by (simp add: validate_csv_columns_def get_mapping_suggestions_def Let_def
      COLUMN_MAPPINGS_def split: prod.splits)

lemma validate_can_proceed:
  "can_proceed (validate_csv_columns headers) =
     (\<forall>field\<in>set required_fields. field \<in> fst ` set (fst (detect_columns headers)))"
  by (auto simp: validate_csv_columns_def get_mapping_suggestions_def Let_def
      filter_empty_conv split: prod.splits)

lemma validate_status:
  "validation_status (validate_csv_columns headers) =
     (if mapping_quality (validate_csv_columns headers) < 5/10 then ''low_confidence''
      else if can_proceed (validate_csv_columns headers) then ''valid''
      else ''missing_required_fields'')"
  by (simp add: validate_csv_columns_def Let_def)

text \<open>
  Claim C2, as stated, at the header list \<open>["foo", "bar"]\<close>. Neither header matches a
  synonym under any of the three rules, the detected mapping is empty and the mapping
  quality is 0, but the validation status is "low\_confidence": the test
  \<open>mapping_quality < 0.5\<close> overrides "missing\_required\_fields".
\<close>

theorem validate_unmatched_counterexample:
  "unmatched_header ''foo'' \<and> unmatched_header ''bar''
   \<and> validation_status (validate_csv_columns [''foo'', ''bar'']) \<noteq> ''missing_required_fields''"
proof -
  have "detect_columns [''foo'', ''bar''] = ([], [])"
    by (rule detect_columns_unmatched) (simp add: unmatched_foo_bar)
  then have "validation_status (validate_csv_columns [''foo'', ''bar'']) = ''low_confidence''"
    by (simp add: validate_status validate_mapping_quality)
  then show ?thesis by (simp add: unmatched_foo_bar)
qed

text \<open>
  Claim C2, amended. For every header list none of whose entries matches a synonym of
  any canonical field under the exact, substring or fuzzy rule, column validation returns
  an empty detected mapping, mapping quality 0, validation status "low\_confidence", and
  does not allow to proceed.
\<close>

theorem validate_unmatched_headers:
  assumes "\<forall>h\<in>set headers. unmatched_header h"
  shows "detected_mapping (validate_csv_columns headers) = []
         \<and> mapping_quality (validate_csv_columns headers) = 0
         \<and> validation_status (validate_csv_columns headers) = ''low_confidence''
         \<and> \<not> can_proceed (validate_csv_columns headers)"
proof -
  have d: "detect_columns headers = ([], [])"
    using assms by (rule detect_columns_unmatched)
  have q: "mapping_quality (validate_csv_columns headers) = 0"
    by (simp add: validate_mapping_quality d)
  have "\<not> can_proceed (validate_csv_columns headers)"
    by (simp add: validate_can_proceed d required_fields_def) blast
  with q show ?thesis
    by (simp add: validate_detected_mapping d validate_status)
qed

theorem validate_unmatched_headers_witness:
  "unmatched_header ''foo'' \<and> unmatched_header ''bar''
   \<and> detected_mapping (validate_csv_columns [''foo'', ''bar'']) = []
   \<and> mapping_quality (validate_csv_columns [''foo'', ''bar'']) = 0
   \<and> validation_status (validate_csv_columns [''foo'', ''bar'']) = ''low_confidence''"
proof -
  have u: "\<forall>h\<in>set [''foo'', ''bar'']. unmatched_header h"
    by (simp add: unmatched_foo_bar)
  from validate_unmatched_headers [OF u] show ?thesis
    by (simp add: unmatched_foo_bar)
qed

text \<open>
  Claim C3, as stated. On the NASA header row the detected mapping has a seventh key:
  \<open>planet_mass\<close>, which the fuzzy rule maps to \<open>st_mass\<close> (the pair \<open>st_\<close>, \<open>star_\<close>
  turns the header into \<open>mass\<close>, a synonym of \<open>planet_mass\<close>). Its domain is not the
  set of the six required fields.
\<close>

theorem detect_columns_nasa_counterexample:
  "fst ` set (fst (detect_columns nasa_headers)) \<noteq>
     {''name'', ''distance'', ''star_type'', ''planet_radius'', ''orbital_period'',
      ''stellar_mass''}"
proof -
  have "''planet_mass'' \<in> fst ` set (fst (detect_columns nasa_headers))"
    by (simp add: detect_columns_nasa)
  moreover have "''planet_mass'' \<notin>
     {''name'', ''distance'', ''star_type'', ''planet_radius'', ''orbital_period'',
      ''stellar_mass''}"
    by simp
  ultimately show ?thesis by metis
qed

text \<open>
  Claim C3, amended. On the NASA header row column detection maps the six required
  fields to their headers at confidence 1.0 and, besides them, \<open>planet_mass\<close> to
  \<open>st_mass\<close> at confidence 0.8; no other field is mapped, and validation reports that
  processing can proceed.
\<close>

theorem detect_columns_nasa_mapping:
  "detect_columns nasa_headers =
     ([(''name'', ''pl_name''), (''distance'', ''sy_dist''), (''star_type'', ''st_spectype''),
       (''planet_radius'', ''pl_rade''), (''orbital_period'', ''pl_orbper''),
       (''stellar_mass'', ''st_mass''), (''planet_mass'', ''st_mass'')],
      [(''name'', 1), (''distance'', 1), (''star_type'', 1), (''planet_radius'', 1),
       (''orbital_period'', 1), (''stellar_mass'', 1), (''planet_mass'', 8/10)])
   \<and> can_proceed (validate_csv_columns nasa_headers)"
proof -
  have "can_proceed (validate_csv_columns nasa_headers)"
    by (simp add: validate_can_proceed detect_columns_nasa required_fields_def)
  then show ?thesis by (simp add: detect_columns_nasa)
qed


end
